theory Spec2Isabelle
  imports Main
begin

section \<open>Package-level constants (main.go, lines 20-29)\<close>

definition authURL :: string where
  "authURL = ''https://accounts.spotify.com/authorize''"

definition tokenURL :: string where
  "tokenURL = ''https://accounts.spotify.com/api/token''"

definition baseAPIAddress :: string where
  "baseAPIAddress = ''https://api.spotify.com''"

definition redirectURL :: string where
  "redirectURL = ''http://localhost:8080/callback''"

definition scopes :: "string list" where
  "scopes = [''playlist-read-private'', ''user-library-read'']"

section \<open>Data model (main.go, lines 31-117)\<close>

text \<open>
  Every Go struct is a record with the fields of the source, in the source's order.
  A Go \<open>string\<close> is a sequence of bytes, here a \<open>char list\<close>; a Go \<open>int\<close> field is
  only ever decoded and stored, never computed with, and is an \<open>int\<close>. Several structs
  share field names (\<open>Name\<close>, \<open>Id\<close>, \<open>Items\<close>, \<open>Next\<close>, ...); the functions below
  write them qualified by the record (\<open>Playlist.Name\<close>, \<open>TracksPage.Next\<close>).
\<close>

record ExternalUrl =
  Spotify :: string

record ExternalId =
  Isrc :: string

record Image =
  Height :: int
  Url :: string
  Width :: int

record Artist =
  ExternalUrls :: ExternalUrl
  Href :: string
  Id :: string
  Name :: string
  Type :: string
  Uri :: string

record Album =
  AlbumGroup :: string
  AlbumType :: string
  Artists :: "Artist list"
  ExternalUrls :: ExternalUrl
  Href :: string
  Id :: string
  Images :: "Image list"
  Name :: string
  ReleaseDate :: string
  ReleaseDatePrecision :: string
  TotalTracks :: int
  Type :: string
  Uri :: string

record Track =
  Album :: Album
  Artists :: "Artist list"
  DiscNumber :: int
  DurationMs :: int
  Explicit :: bool
  ExternalIds :: ExternalId
  ExternalUrls :: ExternalUrl
  Href :: string
  Id :: string
  IsLocal :: bool
  Name :: string
  Popularity :: int
  PreviewUrl :: string
  TrackNumber :: int
  Type :: string
  Uri :: string

record Item =
  AddedAt :: string
  Track :: Track

record Playlist =
  Name :: string
  Id :: string

record PlaylistPage =
  Items :: "Playlist list"
  Href :: string
  Limit :: int
  Next :: string
  Offset :: int
  Previous :: string
  Total :: int

record TracksPage =
  Items :: "Item list"
  Href :: string
  Limit :: int
  Next :: string
  Offset :: int
  Previous :: string
  Total :: int

section \<open>Errors, responses and the world the program runs in\<close>

text \<open>
  A Go \<open>error\<close> value is either produced by a library call (\<open>Cause\<close>, with its message)
  or built by \<open>errors.Wrap(err, msg)\<close> / \<open>errors.Wrapf\<close> around another error.
\<close>

datatype error = Cause string | Wrap error string

text \<open>
  A fetcher ends in one of three ways: it returns a slice with a nil error (\<open>Inr\<close>), it
  returns \<open>nil\<close> with an error (\<open>Inl (Returned e)\<close>), or it dereferences a nil pointer,
  which in Go is a run-time panic that unwinds the whole program (\<open>Inl NilDereference\<close>).
\<close>

datatype failure = Returned error | NilDereference

text \<open>
  The body of a response, once read, is a byte sequence that the program only ever hands
  to \<open>json.Unmarshal\<close> with a freshly declared (zero) page as target. The bytes are
  therefore represented by what that call makes of them for each of the two envelope
  types: the page value it leaves in the target and the error it returns, if any.
\<close>

record bytes =
  as_PlaylistPage :: "PlaylistPage \<times> error option"
  as_TracksPage :: "TracksPage \<times> error option"

text \<open>
  Of a \<open>*http.Response\<close> the program uses \<open>Body\<close> only: \<open>ioutil.ReadAll(resp.Body)\<close>
  gives the bytes (\<open>Inr\<close>) or fails (\<open>Inl\<close>).
\<close>

record response =
  Body :: "error + bytes"

text \<open>
  \<open>client.Get(url)\<close> returns the Go pair \<open>(resp, err)\<close>, each component possibly nil
  (\<open>None\<close>). The remote side is a deterministic machine with a state of its own: the
  answer to a request may depend on the requests before it.
\<close>

type_synonym get_result = "response option \<times> error option"

type_synonym 's client = "'s \<Rightarrow> string \<Rightarrow> get_result \<times> 's"

record Token =
  AccessToken :: string
  TokenType :: string
  RefreshToken :: string
  Expiry :: int

datatype content = TokenJSON Token | ItemsJSON "Item list"

text \<open>
  The world: the state of the remote side, the URLs requested so far, the lines written
  to standard output and to the logger, the authorization codes sent to the token
  endpoint, the replies written to the browser, the local file system, and the seconds
  slept. \<open>mkdir_error\<close> and \<open>write_error\<close> say which file-system calls fail in this
  world.
\<close>

record 's world =
  server :: 's
  requests :: "string list"
  stdout :: "string list"
  logged :: "string list"
  exchanged :: "string list"
  replies :: "string list"
  dirs :: "string list"
  files :: "string \<rightharpoonup> content"
  slept :: nat
  mkdir_error :: "string \<Rightarrow> error option"
  write_error :: "string \<Rightarrow> error option"

text \<open>
  How the process ends: \<open>os.Exit(n)\<close>, also at the end of \<open>log.Fatalf\<close> (status 1)
  and on return from \<open>main\<close> (status 0), or an unrecovered panic.
\<close>

datatype ending = Exit nat | Panicked

text \<open>The text of an error, as \<open>%v\<close> prints it.\<close>

fun Error :: "error \<Rightarrow> string" where
  "Error (Cause msg) = msg"
| "Error (Wrap err msg) = msg @ '': '' @ Error err"

definition Fatalf :: "string \<Rightarrow> 's world \<Rightarrow> ending \<times> 's world" where
  "Fatalf line w = (Exit 1, w\<lparr>logged := logged w @ [line]\<rparr>)"

definition log_Printf :: "string \<Rightarrow> 's world \<Rightarrow> 's world" where
  "log_Printf line w = w\<lparr>logged := logged w @ [line]\<rparr>"

definition Sleep :: "nat \<Rightarrow> 's world \<Rightarrow> 's world" where
  "Sleep seconds w = w\<lparr>slept := slept w + seconds\<rparr>"

definition Get :: "'s client \<Rightarrow> string \<Rightarrow> 's world \<Rightarrow> get_result \<times> 's world" where
  "Get client url w =
     (case client (server w) url of
        (r, s') \<Rightarrow> (r, w\<lparr>server := s', requests := requests w @ [url]\<rparr>))"

definition Printf :: "string \<Rightarrow> 's world \<Rightarrow> 's world" where
  "Printf line w = w\<lparr>stdout := stdout w @ [line]\<rparr>"

text \<open>The verb \<open>%d\<close> on a length: decimal digits, no sign.\<close>

fun itoa :: "nat \<Rightarrow> string" where
  "itoa n = (if n < 10 then [''0123456789'' ! n]
             else itoa (n div 10) @ [''0123456789'' ! (n mod 10)])"

declare itoa.simps [simp del]

section \<open>The paginated fetchers (main.go, lines 182-265)\<close>

definition fetchPlaylists_url :: string where
  "fetchPlaylists_url = baseAPIAddress @ ''/v1/me/playlists?offset=0&limit='' @ itoa 50"

partial_function (option) fetchPlaylists_loop ::
  "'s client \<Rightarrow> 's world \<Rightarrow> Playlist list \<Rightarrow> string
     \<Rightarrow> ((failure + Playlist list) \<times> 's world) option" where
  "fetchPlaylists_loop client w playlists nextPageUrl =
     (if nextPageUrl \<noteq> [] then
        (case Get client nextPageUrl w of
           ((resp, err), w1) \<Rightarrow>
             (case err of
                Some e \<Rightarrow>
                  (case resp of
                     None \<Rightarrow> Some (Inl NilDereference, w1)
                   | Some r \<Rightarrow>
                       Some (Inl (Returned (Wrap e ''failed to fetch playlists'')), w1))
              | None \<Rightarrow>
                  (case resp of
                     None \<Rightarrow> Some (Inl NilDereference, w1)
                   | Some r \<Rightarrow>
                       (case Body r of
                          Inl e \<Rightarrow>
                            Some (Inl (Returned (Wrap e ''failed to read playlists response'')), w1)
                        | Inr data \<Rightarrow>
                            (let page = fst (as_PlaylistPage data);
                                 playlists' = playlists @ PlaylistPage.Items page;
                                 w2 = Printf (''Fetched '' @ itoa (length playlists')
                                                @ '' playlists'' @ [CHR 10]) w1
                             in fetchPlaylists_loop client w2 playlists'
                                  (PlaylistPage.Next page))))))
      else Some (Inr playlists, w))"

definition fetchPlaylists ::
  "'s client \<Rightarrow> 's world \<Rightarrow> ((failure + Playlist list) \<times> 's world) option" where
  "fetchPlaylists client w = fetchPlaylists_loop client w [] fetchPlaylists_url"

definition fetchPlaylistTracks_url :: "Playlist \<Rightarrow> string" where
  "fetchPlaylistTracks_url playlist =
     baseAPIAddress @ ''/v1/playlists/'' @ Playlist.Id playlist
       @ ''/tracks?offset=0&limit='' @ itoa 100"

partial_function (option) fetchPlaylistTracks_loop ::
  "'s client \<Rightarrow> Playlist \<Rightarrow> 's world \<Rightarrow> Item list \<Rightarrow> string
     \<Rightarrow> ((failure + Item list) \<times> 's world) option" where
  "fetchPlaylistTracks_loop client playlist w tracks nextPageUrl =
     (if nextPageUrl \<noteq> [] then
        (case Get client nextPageUrl w of
           ((resp, err), w1) \<Rightarrow>
             (case err of
                Some e \<Rightarrow>
                  (case resp of
                     None \<Rightarrow> Some (Inl NilDereference, w1)
                   | Some r \<Rightarrow>
                       Some (Inl (Returned (Wrap e (''failed to fetch tracks for playlist ''
                                                     @ Playlist.Name playlist))), w1))
              | None \<Rightarrow>
                  (case resp of
                     None \<Rightarrow> Some (Inl NilDereference, w1)
                   | Some r \<Rightarrow>
                       (case Body r of
                          Inl e \<Rightarrow>
                            Some (Inl (Returned (Wrap e ''failed to read tracks response'')), w1)
                        | Inr data \<Rightarrow>
                            (let page = fst (as_TracksPage data);
                                 tracks' = tracks @ TracksPage.Items page;
                                 w2 = Printf (''Fetched '' @ itoa (length (TracksPage.Items page))
                                                @ '' tracks for playlist '' @ Playlist.Name playlist
                                                @ ''. Total tracks: '' @ itoa (length tracks')
                                                @ [CHR 10]) w1
                             in fetchPlaylistTracks_loop client playlist w2 tracks'
                                  (TracksPage.Next page))))))
      else Some (Inr tracks, w))"

definition fetchPlaylistTracks ::
  "'s client \<Rightarrow> Playlist \<Rightarrow> 's world \<Rightarrow> ((failure + Item list) \<times> 's world) option" where
  "fetchPlaylistTracks client playlist w =
     fetchPlaylistTracks_loop client playlist w [] (fetchPlaylistTracks_url playlist)"

definition fetchSavedTracks_url :: string where
  "fetchSavedTracks_url = baseAPIAddress @ ''/v1/me/tracks?offset=0&limit='' @ itoa 50"

text \<open>
  The loop of \<open>fetchSavedTracks\<close> is \<open>for { ... }\<close>: its only exits are the two error
  returns and the \<open>break\<close> on a page shorter than \<open>limit\<close>.
\<close>

partial_function (option) fetchSavedTracks_loop ::
  "'s client \<Rightarrow> 's world \<Rightarrow> Item list \<Rightarrow> string
     \<Rightarrow> ((failure + Item list) \<times> 's world) option" where
  "fetchSavedTracks_loop client w tracks nextPageUrl =
     (case Get client nextPageUrl w of
        ((resp, err), w1) \<Rightarrow>
          (case err of
             Some e \<Rightarrow> Some (Inl (Returned (Wrap e ''failed to fetch saved tracks'')), w1)
           | None \<Rightarrow>
               (case resp of
                  None \<Rightarrow> Some (Inl NilDereference, w1)
                | Some r \<Rightarrow>
                    (case Body r of
                       Inl e \<Rightarrow>
                         Some (Inl (Returned (Wrap e ''failed to read saved tracks response'')), w1)
                     | Inr data \<Rightarrow>
                         (let savedTracksPage = fst (as_TracksPage data);
                              tracks' = tracks @ TracksPage.Items savedTracksPage
                          in if length (TracksPage.Items savedTracksPage) < 50
                             then Some (Inr tracks', w1)
                             else fetchSavedTracks_loop client
                                    (Printf (''Fetched '' @ itoa (length tracks')
                                               @ '' saved tracks'' @ [CHR 10]) w1)
                                    tracks' (TracksPage.Next savedTracksPage))))))"

definition fetchSavedTracks ::
  "'s client \<Rightarrow> 's world \<Rightarrow> ((failure + Item list) \<times> 's world) option" where
  "fetchSavedTracks client w = fetchSavedTracks_loop client w [] fetchSavedTracks_url"


section \<open>The backup writer (main.go, lines 267-289)\<close>

text \<open>
  \<open>filepath.Clean\<close> of the Go standard library, for the platforms whose path separator
  is \<open>/\<close> (no volume names): the loop of the library function, with its read index
  \<open>r\<close>, its output buffer \<open>out\<close> (whose length is the library's write index \<open>w\<close>) and
  the index \<open>dotdot\<close> below which \<open>..\<close> must not remove anything.
\<close>

function backtrack :: "nat \<Rightarrow> string \<Rightarrow> string" where
  "backtrack dotdot out =
     (if length out > dotdot
      then (if last out = CHR ''/'' then butlast out else backtrack dotdot (butlast out))
      else out)"
  by pat_completeness auto
termination
  by (relation "measure (\<lambda>(dotdot, out). length out)") auto

function Clean_loop :: "string \<Rightarrow> bool \<Rightarrow> nat \<Rightarrow> string \<Rightarrow> nat \<Rightarrow> string" where
  "Clean_loop path rooted r out dotdot =
     (let n = length path in
      if r < n then
        (if path ! r = CHR ''/'' then Clean_loop path rooted (r + 1) out dotdot
         else if path ! r = CHR ''.'' \<and> (r + 1 = n \<or> path ! (r + 1) = CHR ''/'')
           then Clean_loop path rooted (r + 1) out dotdot
         else if path ! r = CHR ''.'' \<and> path ! (r + 1) = CHR ''.''
                   \<and> (r + 2 = n \<or> path ! (r + 2) = CHR ''/'')
           then (if length out > dotdot
                   then Clean_loop path rooted (r + 2) (backtrack dotdot out) dotdot
                 else if \<not> rooted
                   then (let out' = (if length out > 0 then out @ ''/'' else out) @ ''..''
                         in Clean_loop path rooted (r + 2) out' (length out'))
                 else Clean_loop path rooted (r + 2) out dotdot)
         else (let out' = (if rooted \<and> length out \<noteq> 1 \<or> \<not> rooted \<and> length out \<noteq> 0
                           then out @ ''/'' else out);
                   elem = takeWhile (\<lambda>c. c \<noteq> CHR ''/'') (drop r path)
               in Clean_loop path rooted (r + length elem) (out' @ elem) dotdot))
      else out)"
  by pat_completeness auto
termination
  apply (relation "measure (\<lambda>(path, rooted, r, out, dotdot). length path - r)")
   apply simp
  apply (auto simp: Let_def Cons_nth_drop_Suc[symmetric])
  done

declare backtrack.simps [simp del] Clean_loop.simps [simp del]

definition Clean :: "string \<Rightarrow> string" where
  "Clean path =
     (if path = [] then ''.''
      else (let rooted = (path ! 0 = CHR ''/'');
                out = (if rooted then Clean_loop path rooted 1 ''/'' 1
                       else Clean_loop path rooted 0 [] 0)
            in if length out = 0 then ''.'' else out))"

text \<open>
  \<open>regexp.MustCompile(`[^a-zA-Z0-9_]+`).ReplaceAllString(s, "-")\<close>. The class is
  decided byte by byte: every byte of a multi-byte UTF-8 sequence and every invalid byte
  is at least 128 and outside the class, as is the code point it belongs to, so matching
  on bytes and matching on code points give the same matches. At a byte outside the
  class the greedy \<open>+\<close> matches up to the next byte of the class; the match is replaced
  by the replacement text and scanning goes on behind it.
\<close>

definition word_char :: "char \<Rightarrow> bool" where
  "word_char c =
     (let n = (of_char c :: nat)
      in (97 \<le> n \<and> n \<le> 122) \<or> (65 \<le> n \<and> n \<le> 90) \<or> (48 \<le> n \<and> n \<le> 57) \<or> n = 95)"

function ReplaceAllString :: "string \<Rightarrow> string" where
  "ReplaceAllString [] = []"
| "ReplaceAllString (c # cs) =
     (if word_char c then c # ReplaceAllString cs
      else CHR ''-'' # ReplaceAllString (dropWhile (\<lambda>x. \<not> word_char x) cs))"
  by pat_completeness auto
termination
  by (relation "measure length") (auto simp: le_imp_less_Suc length_dropWhile_le)

text \<open>Lines 281-282: the name is cleaned as a path, then passed through the regexp.\<close>

definition safeFilename :: "string \<Rightarrow> string" where
  "safeFilename name = ReplaceAllString (Clean name)"

text \<open>
  \<open>json.MarshalIndent\<close> cannot fail on a slice of \<open>Item\<close> (strings, integers, booleans
  and nested structs of them); the file written is represented by the slice it encodes.
  \<open>os.Stat\<close> reports the folder missing exactly when it is not among \<open>dirs\<close>.
\<close>

definition saveJSONToFile ::
  "string \<Rightarrow> Item list \<Rightarrow> 's world \<Rightarrow> (ending + unit) \<times> 's world" where
  "saveJSONToFile name data w =
     (let backupFolder = ''backups'';
          made = (if backupFolder \<notin> set (dirs w)
                  then (case mkdir_error w backupFolder of
                          Some err \<Rightarrow> Inl err
                        | None \<Rightarrow> Inr (w\<lparr>dirs := backupFolder # dirs w\<rparr>))
                  else Inr w)
      in case made of
           Inl err \<Rightarrow>
             (case Fatalf (''Error creating backups folder: '' @ Error err) w of
                (e, w') \<Rightarrow> (Inl e, w'))
         | Inr w1 \<Rightarrow>
             (let filename = backupFolder @ ''/'' @ safeFilename name @ ''.json''
              in case write_error w1 filename of
                   Some err \<Rightarrow>
                     (case Fatalf (''Error writing JSON data to file: '' @ Error err) w1 of
                        (e, w') \<Rightarrow> (Inl e, w'))
                 | None \<Rightarrow> (Inr (), w1\<lparr>files := (files w1)(filename \<mapsto> ItemsJSON data)\<rparr>)))"

section \<open>The token cache (main.go, lines 155-180)\<close>

definition loadToken :: "'s world \<Rightarrow> error + Token" where
  "loadToken w =
     (case files w ''token_cache.json'' of
        None \<Rightarrow> Inl (Wrap (Cause ''open token_cache.json: no such file or directory'')
                       ''failed to read token cache file'')
      | Some (TokenJSON token) \<Rightarrow> Inr token
      | Some (ItemsJSON items) \<Rightarrow>
          Inl (Wrap (Cause ''json: cannot unmarshal array into Go value of type oauth2.Token'')
                 ''failed to unmarshal token''))"

definition saveToken :: "Token \<Rightarrow> 's world \<Rightarrow> (ending + unit) \<times> 's world" where
  "saveToken token w =
     (case write_error w ''token_cache.json'' of
        Some err \<Rightarrow>
          (case Fatalf (''Error saving token cache: '' @ Error err) w of
             (e, w') \<Rightarrow> (Inl e, w'))
      | None \<Rightarrow> (Inr (), w\<lparr>files := (files w)(''token_cache.json'' \<mapsto> TokenJSON token)\<rparr>))"

section \<open>The authorization flow (main.go, lines 121-153)\<close>

record Endpoint =
  AuthURL :: string
  TokenURL :: string

record Config =
  ClientID :: string
  ClientSecret :: string
  RedirectURL :: string
  Scopes :: "string list"
  Endpoint :: Endpoint

text \<open>
  \<open>url.QueryEscape\<close>: letters, digits and \<open>- _ . ~\<close> stay, a space becomes \<open>+\<close>, every
  other byte becomes \<open>%\<close> and two upper-case hexadecimal digits.
\<close>

definition unreserved :: "char \<Rightarrow> bool" where
  "unreserved c = (word_char c \<or> c = CHR ''-'' \<or> c = CHR ''.'' \<or> c = CHR ''~'')"

definition upperhex :: "nat \<Rightarrow> char" where
  "upperhex n = ''0123456789ABCDEF'' ! n"

fun QueryEscape :: "string \<Rightarrow> string" where
  "QueryEscape [] = []"
| "QueryEscape (c # cs) =
     (if unreserved c then [c]
      else if c = CHR '' '' then ''+''
      else [CHR ''%'', upperhex (of_char c div 16), upperhex (of_char c mod 16)])
     @ QueryEscape cs"

fun Join :: "string list \<Rightarrow> string \<Rightarrow> string" where
  "Join [] sep = []"
| "Join [x] sep = x"
| "Join (x # y # ys) sep = x @ sep @ Join (y # ys) sep"

text \<open>
  \<open>conf.AuthCodeURL(state)\<close> of the oauth2 library: the endpoint, then the parameters
  in the order \<open>url.Values.Encode\<close> emits them (sorted by key); \<open>redirect_uri\<close>,
  \<open>scope\<close> and \<open>state\<close> are present when their values are not empty.
\<close>

definition AuthCodeURL :: "Config \<Rightarrow> string \<Rightarrow> string" where
  "AuthCodeURL conf state =
     AuthURL (Endpoint conf)
     @ (if CHR ''?'' \<in> set (AuthURL (Endpoint conf)) then ''&'' else ''?'')
     @ ''client_id='' @ QueryEscape (ClientID conf)
     @ (if RedirectURL conf \<noteq> [] then ''&redirect_uri='' @ QueryEscape (RedirectURL conf) else [])
     @ ''&response_type=code''
     @ (if Scopes conf \<noteq> [] then ''&scope='' @ QueryEscape (Join (Scopes conf) '' '') else [])
     @ (if state \<noteq> [] then ''&state='' @ QueryEscape state else [])"

text \<open>Line 123: the state value of the flow.\<close>

definition oauthFlow_state :: string where
  "oauthFlow_state = ''random-string-for-state-check''"

text \<open>
  A request reaching the local server: its path and its query parameters in order.
  \<open>query.Get(key)\<close> is the first value of the key, or the empty string.
\<close>

datatype request = Request (URL_Path: string) (URL_Query: "(string \<times> string) list")

definition query_Get :: "(string \<times> string) list \<Rightarrow> string \<Rightarrow> string" where
  "query_Get q key = (case map_of q key of None \<Rightarrow> [] | Some v \<Rightarrow> v)"

text \<open>
  \<open>conf.Exchange(ctx, code)\<close> sends the code to the token endpoint; what comes back is
  the provider's business, given here as the function \<open>exchange\<close>.
\<close>

definition Exchange ::
  "(string \<Rightarrow> error + Token) \<Rightarrow> string \<Rightarrow> 's world \<Rightarrow> (error + Token) \<times> 's world" where
  "Exchange exchange code w = (exchange code, w\<lparr>exchanged := exchanged w @ [code]\<rparr>)"

text \<open>The handler registered for \<open>/callback\<close> (lines 130-147). Every path ends the process.\<close>

definition callback ::
  "(string \<Rightarrow> error + Token) \<Rightarrow> string \<Rightarrow> (string \<times> string) list \<Rightarrow> 's world
     \<Rightarrow> ending \<times> 's world" where
  "callback exchange state q w =
     (let code = query_Get q ''code'';
          receivedState = query_Get q ''state''
      in if state \<noteq> receivedState
         then Fatalf (''Invalid state received: '' @ receivedState) w
         else (case Exchange exchange code w of
                 (Inl err, w1) \<Rightarrow>
                   Fatalf (''Error exchanging authorization code: '' @ Error err) w1
               | (Inr token, w1) \<Rightarrow>
                   (case saveToken token w1 of
                      (Inl e, w2) \<Rightarrow> (e, w2)
                    | (Inr u, w2) \<Rightarrow>
                        (Exit 0,
                         w2\<lparr>replies := replies w2
                               @ [''Authorization successful. You can close this window.'']\<rparr>))))"

text \<open>
  \<open>http.ListenAndServe\<close> with the default multiplexer: a request for another path is
  answered \<open>404\<close> and the server goes on; with no request left the server waits for ever
  (\<open>None\<close>).
\<close>

fun serve ::
  "(string \<Rightarrow> error + Token) \<Rightarrow> string \<Rightarrow> request list \<Rightarrow> 's world
     \<Rightarrow> (ending \<times> 's world) option" where
  "serve exchange state [] w = None"
| "serve exchange state (rq # rqs) w =
     (if URL_Path rq = ''/callback'' then Some (callback exchange state (URL_Query rq) w)
      else serve exchange state rqs (w\<lparr>replies := replies w @ [''404 page not found'']\<rparr>))"

text \<open>
  \<open>listen\<close> is the error with which \<open>ListenAndServe\<close> fails at once (the port is taken),
  if any; \<open>incoming\<close> are the requests that reach the server.
\<close>

definition oauthFlow ::
  "Config \<Rightarrow> (string \<Rightarrow> error + Token) \<Rightarrow> error option \<Rightarrow> request list \<Rightarrow> 's world
     \<Rightarrow> (ending \<times> 's world) option" where
  "oauthFlow conf exchange listen incoming w =
     (let state = oauthFlow_state;
          url = AuthCodeURL conf state;
          w1 = Printf (''Visit the following URL to authorize the app: '' @ [CHR 10]
                         @ url @ [CHR 10]) w
      in case listen of
           Some err \<Rightarrow> Some (Fatalf (Error err) w1)
         | None \<Rightarrow> serve exchange state incoming w1)"

section \<open>Orchestration (main.go, lines 291-345)\<close>

text \<open>The loop over the playlists (lines 327-336).\<close>

fun main_loop ::
  "'s client \<Rightarrow> Playlist list \<Rightarrow> 's world \<Rightarrow> ((ending + unit) \<times> 's world) option" where
  "main_loop client [] w = Some (Inr (), w)"
| "main_loop client (p # ps) w =
     (case fetchPlaylistTracks client p w of
        None \<Rightarrow> None
      | Some (Inl NilDereference, w1) \<Rightarrow> Some (Inl Panicked, w1)
      | Some (Inl (Returned err), w1) \<Rightarrow>
          main_loop client ps
            (log_Printf (''Error fetching tracks for playlist '' @ Playlist.Name p
                           @ '': '' @ Error err) w1)
      | Some (Inr tracks, w1) \<Rightarrow>
          (case saveJSONToFile (Playlist.Name p) tracks w1 of
             (Inl e, w2) \<Rightarrow> Some (Inl e, w2)
           | (Inr u, w2) \<Rightarrow> main_loop client ps (Sleep 2 w2)))"

text \<open>Lines 320-344: what \<open>main\<close> does once it holds the authenticated client.\<close>

definition main_backup :: "'s client \<Rightarrow> 's world \<Rightarrow> (ending \<times> 's world) option" where
  "main_backup client w =
     (case fetchPlaylists client w of
        None \<Rightarrow> None
      | Some (Inl NilDereference, w1) \<Rightarrow> Some (Panicked, w1)
      | Some (Inl (Returned err), w1) \<Rightarrow>
          Some (Fatalf (''Error fetching playlists: '' @ Error err) w1)
      | Some (Inr playlists, w1) \<Rightarrow>
          (case main_loop client playlists w1 of
             None \<Rightarrow> None
           | Some (Inl e, w2) \<Rightarrow> Some (e, w2)
           | Some (Inr u, w2) \<Rightarrow>
               (case fetchSavedTracks client w2 of
                  None \<Rightarrow> None
                | Some (Inl NilDereference, w3) \<Rightarrow> Some (Panicked, w3)
                | Some (Inl (Returned err), w3) \<Rightarrow>
                    Some (Fatalf (''Error fetching saved tracks: '' @ Error err) w3)
                | Some (Inr savedTracks, w3) \<Rightarrow>
                    (case saveJSONToFile ''saved_tracks'' savedTracks w3 of
                       (Inl e, w4) \<Rightarrow> Some (e, w4)
                     | (Inr u, w4) \<Rightarrow> Some (Exit 0, w4)))))"

text \<open>
  \<open>dotenv\<close> is the error of \<open>godotenv.Load\<close>, if any; \<open>getenv\<close> is the environment;
  \<open>client token\<close> is the remote side as reached with the token. \<open>oauthFlow\<close> never
  returns to \<open>main\<close>, so the \<open>saveToken\<close> of line 315 is never reached.
\<close>

definition main ::
  "error option \<Rightarrow> (string \<Rightarrow> string) \<Rightarrow> (string \<Rightarrow> error + Token) \<Rightarrow> error option
     \<Rightarrow> request list \<Rightarrow> (Token \<Rightarrow> 's client) \<Rightarrow> 's world \<Rightarrow> (ending \<times> 's world) option" where
  "main dotenv getenv exchange listen incoming client w =
     (case dotenv of
        Some err \<Rightarrow> Some (Fatalf ''Error loading .env file'' w)
      | None \<Rightarrow>
          (let conf = \<lparr>ClientID = getenv ''SPOTIFY_CLIENT_ID'',
                       ClientSecret = getenv ''SPOTIFY_CLIENT_SECRET'',
                       RedirectURL = redirectURL,
                       Scopes = scopes,
                       Endpoint = \<lparr>AuthURL = authURL, TokenURL = tokenURL\<rparr>\<rparr>
           in case loadToken w of
                Inl err \<Rightarrow> oauthFlow conf exchange listen incoming w
              | Inr token \<Rightarrow> main_backup (client token) w))"

section \<open>Specification-side notions\<close>

text \<open>
  The remote side, in state \<open>s\<close> and asked for \<open>url\<close>, serves the playlist pages \<open>ps\<close>
  one after the other, each page at the \<open>next\<close> cursor of the page before: every page
  but the last has a non-empty cursor, the last has an empty one.
\<close>

fun playlist_pages :: "'s client \<Rightarrow> 's \<Rightarrow> string \<Rightarrow> PlaylistPage list \<Rightarrow> bool" where
  "playlist_pages client s url [] = False"
| "playlist_pages client s url (p # ps) =
     (case client s url of
        ((Some r, None), s') \<Rightarrow>
          (case Body r of
             Inr data \<Rightarrow>
               fst (as_PlaylistPage data) = p \<and>
               (if ps = [] then PlaylistPage.Next p = []
                else PlaylistPage.Next p \<noteq> []
                     \<and> playlist_pages client s' (PlaylistPage.Next p) ps)
           | Inl e \<Rightarrow> False)
      | _ \<Rightarrow> False)"

text \<open>The same for pages of tracks.\<close>

fun tracks_pages :: "'s client \<Rightarrow> 's \<Rightarrow> string \<Rightarrow> TracksPage list \<Rightarrow> bool" where
  "tracks_pages client s url [] = False"
| "tracks_pages client s url (p # ps) =
     (case client s url of
        ((Some r, None), s') \<Rightarrow>
          (case Body r of
             Inr data \<Rightarrow>
               fst (as_TracksPage data) = p \<and>
               (if ps = [] then TracksPage.Next p = []
                else TracksPage.Next p \<noteq> []
                     \<and> tracks_pages client s' (TracksPage.Next p) ps)
           | Inl e \<Rightarrow> False)
      | _ \<Rightarrow> False)"

text \<open>
  The remote side serves the pages of tracks \<open>ps\<close>, each at the cursor of the page before,
  and the last page is the first one with fewer than 50 items; nothing is asked of the
  cursors.
\<close>

fun short_page_run :: "'s client \<Rightarrow> 's \<Rightarrow> string \<Rightarrow> TracksPage list \<Rightarrow> bool" where
  "short_page_run client s url [] = False"
| "short_page_run client s url (p # ps) =
     (case client s url of
        ((Some r, None), s') \<Rightarrow>
          (case Body r of
             Inr data \<Rightarrow>
               fst (as_TracksPage data) = p \<and>
               (if ps = [] then length (TracksPage.Items p) < 50
                else 50 \<le> length (TracksPage.Items p)
                     \<and> short_page_run client s' (TracksPage.Next p) ps)
           | Inl e \<Rightarrow> False)
      | _ \<Rightarrow> False)"

section \<open>Sample data\<close>

text \<open>The zero values of the structs: what \<open>var page PlaylistPage\<close> declares.\<close>

definition zero_ExternalUrl :: ExternalUrl where
  "zero_ExternalUrl = \<lparr>Spotify = []\<rparr>"

definition zero_Album :: Album where
  "zero_Album = \<lparr>AlbumGroup = [], AlbumType = [], Artists = [], ExternalUrls = zero_ExternalUrl,
     Href = [], Id = [], Images = [], Name = [], ReleaseDate = [], ReleaseDatePrecision = [],
     TotalTracks = 0, Type = [], Uri = []\<rparr>"

definition zero_Track :: Track where
  "zero_Track = \<lparr>Album = zero_Album, Artists = [], DiscNumber = 0, DurationMs = 0,
     Explicit = False, ExternalIds = \<lparr>Isrc = []\<rparr>, ExternalUrls = zero_ExternalUrl, Href = [],
     Id = [], IsLocal = False, Name = [], Popularity = 0, PreviewUrl = [], TrackNumber = 0,
     Type = [], Uri = []\<rparr>"

definition zero_PlaylistPage :: PlaylistPage where
  "zero_PlaylistPage = \<lparr>PlaylistPage.Items = [], Href = [], Limit = 0, Next = [], Offset = 0,
     Previous = [], Total = 0\<rparr>"

definition zero_TracksPage :: TracksPage where
  "zero_TracksPage = \<lparr>TracksPage.Items = [], Href = [], Limit = 0, Next = [], Offset = 0,
     Previous = [], Total = 0\<rparr>"

text \<open>A track of a given name, added at a given time.\<close>

definition item :: "string \<Rightarrow> string \<Rightarrow> Item" where
  "item name added = \<lparr>AddedAt = added, Track = zero_Track\<lparr>Track.Name := name\<rparr>\<rparr>"

text \<open>
  The bytes of a well-formed page of playlists and of a well-formed page of tracks. Decoded
  as the other envelope type, the items come out as zero values, without an error. The
  bytes of a body that is not JSON leave the target untouched and give an error.
\<close>

definition playlists_json :: "PlaylistPage \<Rightarrow> bytes" where
  "playlists_json p =
     \<lparr>as_PlaylistPage = (p, None),
      as_TracksPage =
        (\<lparr>TracksPage.Items = map (\<lambda>x. \<lparr>AddedAt = [], Track = zero_Track\<rparr>) (PlaylistPage.Items p),
          Href = PlaylistPage.Href p, Limit = PlaylistPage.Limit p, Next = PlaylistPage.Next p,
          Offset = PlaylistPage.Offset p, Previous = PlaylistPage.Previous p,
          Total = PlaylistPage.Total p\<rparr>, None)\<rparr>"

definition tracks_json :: "TracksPage \<Rightarrow> bytes" where
  "tracks_json p =
     \<lparr>as_PlaylistPage =
        (\<lparr>PlaylistPage.Items = map (\<lambda>x. \<lparr>Playlist.Name = [], Id = []\<rparr>) (TracksPage.Items p),
          Href = TracksPage.Href p, Limit = TracksPage.Limit p, Next = TracksPage.Next p,
          Offset = TracksPage.Offset p, Previous = TracksPage.Previous p,
          Total = TracksPage.Total p\<rparr>, None),
      as_TracksPage = (p, None)\<rparr>"

definition not_json :: bytes where
  "not_json =
     \<lparr>as_PlaylistPage =
        (zero_PlaylistPage, Some (Cause ''invalid character '<' looking for beginning of value'')),
      as_TracksPage =
        (zero_TracksPage, Some (Cause ''invalid character '<' looking for beginning of value''))\<rparr>"

definition ok :: "bytes \<Rightarrow> get_result" where
  "ok data = (Some \<lparr>Body = Inr data\<rparr>, None)"

text \<open>A world in which nothing has happened yet and no file-system call fails.\<close>

definition world0 :: "unit world" where
  "world0 = \<lparr>server = (), requests = [], stdout = [], logged = [], exchanged = [],
     replies = [], dirs = [], files = Map.empty, slept = 0,
     mkdir_error = (\<lambda>d. None), write_error = (\<lambda>f. None)\<rparr>"

text \<open>
  A remote side with three playlists on two pages. The tracks of \<open>Road\<close> come on two
  pages, the body of the tracks of \<open>Rain\<close> breaks off while it is read, \<open>Rest\<close> has one
  page. The saved tracks come as a full page of 50 and a page of one, whose cursor is not
  empty.
\<close>

definition Road :: Playlist where
  "Road = \<lparr>Playlist.Name = ''Road'', Id = ''p1''\<rparr>"

definition Rain :: Playlist where
  "Rain = \<lparr>Playlist.Name = ''Rain'', Id = ''p2''\<rparr>"

definition Rest :: Playlist where
  "Rest = \<lparr>Playlist.Name = ''Rest'', Id = ''p3''\<rparr>"

definition playlists1 :: PlaylistPage where
  "playlists1 = \<lparr>PlaylistPage.Items = [Road, Rain], Href = [], Limit = 50, Next = ''https://api.spotify.com/m2'',
     Offset = 0, Previous = [], Total = 3\<rparr>"

definition playlists2 :: PlaylistPage where
  "playlists2 = \<lparr>PlaylistPage.Items = [Rest], Href = [], Limit = 50, Next = [], Offset = 2,
     Previous = [], Total = 3\<rparr>"

definition road1 :: TracksPage where
  "road1 = \<lparr>TracksPage.Items = [item ''One'' ''2023-01-01''], Href = [], Limit = 100,
     Next = ''https://api.spotify.com/r2'', Offset = 0, Previous = [], Total = 2\<rparr>"

definition road2 :: TracksPage where
  "road2 = \<lparr>TracksPage.Items = [item ''Two'' ''2023-01-02''], Href = [], Limit = 100, Next = [],
     Offset = 1, Previous = [], Total = 2\<rparr>"

definition rest1 :: TracksPage where
  "rest1 = \<lparr>TracksPage.Items = [item ''Three'' ''2023-01-03''], Href = [], Limit = 100, Next = [],
     Offset = 0, Previous = [], Total = 1\<rparr>"

definition saved1 :: TracksPage where
  "saved1 = \<lparr>TracksPage.Items = replicate 50 (item ''Liked'' ''2023-02-01''), Href = [], Limit = 50,
     Next = ''https://api.spotify.com/s2'', Offset = 0, Previous = [], Total = 51\<rparr>"

definition saved2 :: TracksPage where
  "saved2 = \<lparr>TracksPage.Items = [item ''Last'' ''2023-02-02''], Href = [], Limit = 50,
     Next = ''https://api.spotify.com/s3'', Offset = 50, Previous = [], Total = 51\<rparr>"

definition remote :: "unit client" where
  "remote s url =
     (if url = fetchPlaylists_url then (ok (playlists_json playlists1), s)
      else if url = ''https://api.spotify.com/m2'' then (ok (playlists_json playlists2), s)
      else if url = fetchPlaylistTracks_url Road then (ok (tracks_json road1), s)
      else if url = ''https://api.spotify.com/r2'' then (ok (tracks_json road2), s)
      else if url = fetchPlaylistTracks_url Rain
        then ((Some \<lparr>Body = Inl (Cause ''unexpected EOF'')\<rparr>, None), s)
      else if url = fetchPlaylistTracks_url Rest then (ok (tracks_json rest1), s)
      else if url = fetchSavedTracks_url then (ok (tracks_json saved1), s)
      else if url = ''https://api.spotify.com/s2'' then (ok (tracks_json saved2), s)
      else ((None, Some (Cause ''unsupported protocol scheme'')), s))"

text \<open>
  A library of exactly 50 saved tracks: one full page, whose cursor is empty. A request
  for the empty URL fails in the client.
\<close>

definition fifty :: TracksPage where
  "fifty = \<lparr>TracksPage.Items = replicate 50 (item ''Liked'' ''2023-02-01''), Href = [], Limit = 50,
     Next = [], Offset = 0, Previous = [], Total = 50\<rparr>"

definition library_of_50 :: "unit client" where
  "library_of_50 s url =
     (if url = fetchSavedTracks_url then (ok (tracks_json fifty), s)
      else ((None, Some (Cause ''unsupported protocol scheme'')), s))"

text \<open>A remote side that cannot be reached, and one that is lost after the first page.\<close>

definition offline :: "unit client" where
  "offline s url = ((None, Some (Cause ''connection refused'')), s)"

definition lost_after_first_page :: "unit client" where
  "lost_after_first_page s url =
     (if url = fetchPlaylists_url then (ok (playlists_json playlists1), s)
      else if url = fetchPlaylistTracks_url Road then (ok (tracks_json road1), s)
      else if url = fetchSavedTracks_url then (ok (tracks_json saved1), s)
      else ((None, Some (Cause ''connection refused'')), s))"

text \<open>A remote side whose second page of every collection is not JSON.\<close>

definition garbled_second_page :: "unit client" where
  "garbled_second_page s url =
     (if url = fetchPlaylists_url then (ok (playlists_json playlists1), s)
      else if url = fetchPlaylistTracks_url Road then (ok (tracks_json road1), s)
      else if url = fetchSavedTracks_url then (ok (tracks_json saved1), s)
      else (ok not_json, s))"

text \<open>
  The client that answers as \<open>client\<close> does, except that its bodies decode without an
  error, to the page values that the decoder leaves for the bodies of \<open>client\<close>.
\<close>

definition without_decode_errors :: "'s client \<Rightarrow> 's client" where
  "without_decode_errors client s url =
     (case client s url of
        ((resp, err), s') \<Rightarrow>
          ((case resp of
              None \<Rightarrow> None
            | Some r \<Rightarrow>
                Some \<lparr>Body = (case Body r of
                                Inl e \<Rightarrow> Inl e
                              | Inr data \<Rightarrow>
                                  Inr \<lparr>as_PlaylistPage = (fst (as_PlaylistPage data), None),
                                       as_TracksPage = (fst (as_TracksPage data), None)\<rparr>)\<rparr>,
            err), s'))"

text \<open>
  The rule of the specification for file names: the name is cut into its maximal runs of
  characters that are all inside or all outside the class \<open>[A-Za-z0-9_]\<close>; a run inside
  the class is kept, a run outside it becomes a single hyphen.
\<close>

fun runs :: "('a \<Rightarrow> bool) \<Rightarrow> 'a list \<Rightarrow> 'a list list" where
  "runs P [] = []"
| "runs P (x # xs) =
     (case runs P xs of
        [] \<Rightarrow> [[x]]
      | b # bs \<Rightarrow> if P x = P (hd b) then (x # b) # bs else [x] # b # bs)"

definition collapse_runs :: "string \<Rightarrow> string" where
  "collapse_runs name =
     concat (map (\<lambda>b. if word_char (hd b) then b else ''-'') (runs word_char name))"

text \<open>
  A configuration as \<open>main\<close> builds it, for a sample client, a provider that grants a
  token for any code, and a forged callback that arrives after a request for another
  path.
\<close>

definition sample_conf :: Config where
  "sample_conf = \<lparr>ClientID = ''4f2a'', ClientSecret = ''s3cret'', RedirectURL = redirectURL,
     Scopes = scopes, Endpoint = \<lparr>AuthURL = authURL, TokenURL = tokenURL\<rparr>\<rparr>"

definition granting :: "string \<Rightarrow> error + Token" where
  "granting code = Inr \<lparr>AccessToken = ''at-'' @ code, TokenType = ''Bearer'',
     RefreshToken = ''rt-'' @ code, Expiry = 3600\<rparr>"

definition forged_callback :: "request list" where
  "forged_callback =
     [Request ''/favicon.ico'' [],
      Request ''/callback'' [(''code'', ''stolen''), (''state'', ''guess'')]]"

text \<open>
  A remote side with two playlists on one page, which cannot be reached any more when
  the tracks of the first are asked for.
\<close>

definition two_playlists :: PlaylistPage where
  "two_playlists = \<lparr>PlaylistPage.Items = [Rain, Rest], Href = [], Limit = 50, Next = [],
     Offset = 0, Previous = [], Total = 2\<rparr>"

definition lost_before_tracks :: "unit client" where
  "lost_before_tracks s url =
     (if url = fetchPlaylists_url then (ok (playlists_json two_playlists), s)
      else ((None, Some (Cause ''connection refused'')), s))"

section \<open>One iteration of each loop\<close>

lemma fetchPlaylists_loop_done:
  "fetchPlaylists_loop client w acc [] = Some (Inr acc, w)"
  by (subst fetchPlaylists_loop.simps) simp

lemma fetchPlaylists_loop_get_nil:
  "Get client url w = ((None, err), w1) \<Longrightarrow> url \<noteq> [] \<Longrightarrow>
   fetchPlaylists_loop client w acc url = Some (Inl NilDereference, w1)"
  by (subst fetchPlaylists_loop.simps) (simp split: option.splits)

lemma fetchPlaylists_loop_get_error:
  "Get client url w = ((Some r, Some e), w1) \<Longrightarrow> url \<noteq> [] \<Longrightarrow>
   fetchPlaylists_loop client w acc url
     = Some (Inl (Returned (Wrap e ''failed to fetch playlists'')), w1)"
  by (subst fetchPlaylists_loop.simps) simp

lemma fetchPlaylists_loop_read_error:
  "Get client url w = ((Some r, None), w1) \<Longrightarrow> Body r = Inl e \<Longrightarrow> url \<noteq> [] \<Longrightarrow>
   fetchPlaylists_loop client w acc url
     = Some (Inl (Returned (Wrap e ''failed to read playlists response'')), w1)"
  by (subst fetchPlaylists_loop.simps) simp

lemma fetchPlaylists_loop_page:
  "Get client url w = ((Some r, None), w1) \<Longrightarrow> Body r = Inr data \<Longrightarrow> url \<noteq> [] \<Longrightarrow>
   fetchPlaylists_loop client w acc url
     = fetchPlaylists_loop client
         (Printf (''Fetched '' @ itoa (length (acc @ PlaylistPage.Items (fst (as_PlaylistPage data))))
                    @ '' playlists'' @ [CHR 10]) w1)
         (acc @ PlaylistPage.Items (fst (as_PlaylistPage data)))
         (PlaylistPage.Next (fst (as_PlaylistPage data)))"
  by (subst fetchPlaylists_loop.simps) (simp add: Let_def)

lemma fetchPlaylistTracks_loop_done:
  "fetchPlaylistTracks_loop client playlist w acc [] = Some (Inr acc, w)"
  by (subst fetchPlaylistTracks_loop.simps) simp

lemma fetchPlaylistTracks_loop_get_nil:
  "Get client url w = ((None, err), w1) \<Longrightarrow> url \<noteq> [] \<Longrightarrow>
   fetchPlaylistTracks_loop client playlist w acc url = Some (Inl NilDereference, w1)"
  by (subst fetchPlaylistTracks_loop.simps) (simp split: option.splits)

lemma fetchPlaylistTracks_loop_get_error:
  "Get client url w = ((Some r, Some e), w1) \<Longrightarrow> url \<noteq> [] \<Longrightarrow>
   fetchPlaylistTracks_loop client playlist w acc url
     = Some (Inl (Returned (Wrap e (''failed to fetch tracks for playlist ''
                                     @ Playlist.Name playlist))), w1)"
  by (subst fetchPlaylistTracks_loop.simps) simp

lemma fetchPlaylistTracks_loop_read_error:
  "Get client url w = ((Some r, None), w1) \<Longrightarrow> Body r = Inl e \<Longrightarrow> url \<noteq> [] \<Longrightarrow>
   fetchPlaylistTracks_loop client playlist w acc url
     = Some (Inl (Returned (Wrap e ''failed to read tracks response'')), w1)"
  by (subst fetchPlaylistTracks_loop.simps) simp

lemma fetchPlaylistTracks_loop_page:
  "Get client url w = ((Some r, None), w1) \<Longrightarrow> Body r = Inr data \<Longrightarrow> url \<noteq> [] \<Longrightarrow>
   fetchPlaylistTracks_loop client playlist w acc url
     = fetchPlaylistTracks_loop client playlist
         (Printf (''Fetched '' @ itoa (length (TracksPage.Items (fst (as_TracksPage data))))
                    @ '' tracks for playlist '' @ Playlist.Name playlist
                    @ ''. Total tracks: ''
                    @ itoa (length (acc @ TracksPage.Items (fst (as_TracksPage data))))
                    @ [CHR 10]) w1)
         (acc @ TracksPage.Items (fst (as_TracksPage data)))
         (TracksPage.Next (fst (as_TracksPage data)))"
  by (subst fetchPlaylistTracks_loop.simps) (simp add: Let_def)

lemma fetchSavedTracks_loop_get_error:
  "Get client url w = ((resp, Some e), w1) \<Longrightarrow>
   fetchSavedTracks_loop client w acc url
     = Some (Inl (Returned (Wrap e ''failed to fetch saved tracks'')), w1)"
  by (subst fetchSavedTracks_loop.simps) simp

lemma fetchSavedTracks_loop_get_nil:
  "Get client url w = ((None, None), w1) \<Longrightarrow>
   fetchSavedTracks_loop client w acc url = Some (Inl NilDereference, w1)"
  by (subst fetchSavedTracks_loop.simps) simp

lemma fetchSavedTracks_loop_read_error:
  "Get client url w = ((Some r, None), w1) \<Longrightarrow> Body r = Inl e \<Longrightarrow>
   fetchSavedTracks_loop client w acc url
     = Some (Inl (Returned (Wrap e ''failed to read saved tracks response'')), w1)"
  by (subst fetchSavedTracks_loop.simps) simp

lemma fetchSavedTracks_loop_short_page:
  "Get client url w = ((Some r, None), w1) \<Longrightarrow> Body r = Inr data \<Longrightarrow>
   length (TracksPage.Items (fst (as_TracksPage data))) < 50 \<Longrightarrow>
   fetchSavedTracks_loop client w acc url
     = Some (Inr (acc @ TracksPage.Items (fst (as_TracksPage data))), w1)"
  by (subst fetchSavedTracks_loop.simps) (simp add: Let_def)

lemma fetchSavedTracks_loop_full_page:
  "Get client url w = ((Some r, None), w1) \<Longrightarrow> Body r = Inr data \<Longrightarrow>
   \<not> length (TracksPage.Items (fst (as_TracksPage data))) < 50 \<Longrightarrow>
   fetchSavedTracks_loop client w acc url
     = fetchSavedTracks_loop client
         (Printf (''Fetched '' @ itoa (length (acc @ TracksPage.Items (fst (as_TracksPage data))))
                    @ '' saved tracks'' @ [CHR 10]) w1)
         (acc @ TracksPage.Items (fst (as_TracksPage data)))
         (TracksPage.Next (fst (as_TracksPage data)))"
  by (subst fetchSavedTracks_loop.simps) (simp add: Let_def)

section \<open>Pagination: all pages, in order, one request each\<close>

lemma fetchPlaylists_url_nonempty: "fetchPlaylists_url \<noteq> []"
  by (simp add: fetchPlaylists_url_def baseAPIAddress_def)

lemma fetchPlaylistTracks_url_nonempty: "fetchPlaylistTracks_url playlist \<noteq> []"
  by (simp add: fetchPlaylistTracks_url_def baseAPIAddress_def)

lemma playlist_pages_nonempty: "playlist_pages client s url ps \<Longrightarrow> ps \<noteq> []"
  by (cases ps) simp_all

lemma tracks_pages_nonempty: "tracks_pages client s url ps \<Longrightarrow> ps \<noteq> []"
  by (cases ps) simp_all

lemma fetchPlaylists_loop_pages:
  "playlist_pages client (server w) url ps \<Longrightarrow> url \<noteq> [] \<Longrightarrow>
   \<exists>w'. fetchPlaylists_loop client w acc url
           = Some (Inr (acc @ concat (map PlaylistPage.Items ps)), w')
       \<and> requests w' = requests w @ url # map PlaylistPage.Next (butlast ps)"
proof (induction ps arbitrary: w acc url)
  case Nil
  then show ?case by simp
next
  case (Cons p ps)
  from Cons.prems(1) obtain r s' data where
    c: "client (server w) url = ((Some r, None), s')" and
    b: "Body r = Inr data" and
    p: "fst (as_PlaylistPage data) = p" and
    n: "if ps = [] then PlaylistPage.Next p = []
        else PlaylistPage.Next p \<noteq> [] \<and> playlist_pages client s' (PlaylistPage.Next p) ps"
    by (auto split: prod.splits option.splits sum.splits)
  show ?case
  proof (cases "ps = []")
    case True
    with n have "PlaylistPage.Next p = []" by simp
    with c b p True Cons.prems(2) show ?thesis
      by (subst fetchPlaylists_loop.simps, subst fetchPlaylists_loop.simps)
         (simp add: Get_def Printf_def Let_def)
  next
    case False
    with n have nn: "PlaylistPage.Next p \<noteq> []"
      and pp: "playlist_pages client s' (PlaylistPage.Next p) ps" by simp_all
    define w2 where "w2 = Printf (''Fetched '' @ itoa (length (acc @ PlaylistPage.Items p))
                                   @ '' playlists'' @ [CHR 10])
                            (w\<lparr>server := s', requests := requests w @ [url]\<rparr>)"
    have sw: "server w2 = s'" and rw: "requests w2 = requests w @ [url]"
      by (simp_all add: w2_def Printf_def)
    from pp sw have "playlist_pages client (server w2) (PlaylistPage.Next p) ps" by simp
    from Cons.IH[OF this nn, of "acc @ PlaylistPage.Items p"] obtain w' where
      f: "fetchPlaylists_loop client w2 (acc @ PlaylistPage.Items p) (PlaylistPage.Next p)
            = Some (Inr ((acc @ PlaylistPage.Items p) @ concat (map PlaylistPage.Items ps)), w')"
      and q: "requests w' = requests w2 @ PlaylistPage.Next p # map PlaylistPage.Next (butlast ps)"
      by blast
    have "fetchPlaylists_loop client w acc url
            = fetchPlaylists_loop client w2 (acc @ PlaylistPage.Items p) (PlaylistPage.Next p)"
      using c b p Cons.prems(2)
      by (subst fetchPlaylists_loop.simps) (simp add: Get_def Let_def w2_def)
    with f q rw False show ?thesis by simp
  qed
qed

lemma fetchPlaylistTracks_loop_pages:
  "tracks_pages client (server w) url ps \<Longrightarrow> url \<noteq> [] \<Longrightarrow>
   \<exists>w'. fetchPlaylistTracks_loop client playlist w acc url
           = Some (Inr (acc @ concat (map TracksPage.Items ps)), w')
       \<and> requests w' = requests w @ url # map TracksPage.Next (butlast ps)"
proof (induction ps arbitrary: w acc url)
  case Nil
  then show ?case by simp
next
  case (Cons p ps)
  from Cons.prems(1) obtain r s' data where
    c: "client (server w) url = ((Some r, None), s')" and
    b: "Body r = Inr data" and
    p: "fst (as_TracksPage data) = p" and
    n: "if ps = [] then TracksPage.Next p = []
        else TracksPage.Next p \<noteq> [] \<and> tracks_pages client s' (TracksPage.Next p) ps"
    by (auto split: prod.splits option.splits sum.splits)
  show ?case
  proof (cases "ps = []")
    case True
    with n have "TracksPage.Next p = []" by simp
    with c b p True Cons.prems(2) show ?thesis
      by (subst fetchPlaylistTracks_loop.simps, subst fetchPlaylistTracks_loop.simps)
         (simp add: Get_def Printf_def Let_def)
  next
    case False
    with n have nn: "TracksPage.Next p \<noteq> []"
      and pp: "tracks_pages client s' (TracksPage.Next p) ps" by simp_all
    define w2 where "w2 = Printf (''Fetched '' @ itoa (length (TracksPage.Items p))
                                   @ '' tracks for playlist '' @ Playlist.Name playlist
                                   @ ''. Total tracks: ''
                                   @ itoa (length (acc @ TracksPage.Items p)) @ [CHR 10])
                            (w\<lparr>server := s', requests := requests w @ [url]\<rparr>)"
    have sw: "server w2 = s'" and rw: "requests w2 = requests w @ [url]"
      by (simp_all add: w2_def Printf_def)
    from pp sw have "tracks_pages client (server w2) (TracksPage.Next p) ps" by simp
    from Cons.IH[OF this nn, of "acc @ TracksPage.Items p"] obtain w' where
      f: "fetchPlaylistTracks_loop client playlist w2 (acc @ TracksPage.Items p)
            (TracksPage.Next p)
            = Some (Inr ((acc @ TracksPage.Items p) @ concat (map TracksPage.Items ps)), w')"
      and q: "requests w' = requests w2 @ TracksPage.Next p # map TracksPage.Next (butlast ps)"
      by blast
    have "fetchPlaylistTracks_loop client playlist w acc url
            = fetchPlaylistTracks_loop client playlist w2 (acc @ TracksPage.Items p)
                (TracksPage.Next p)"
      using c b p Cons.prems(2)
      by (subst fetchPlaylistTracks_loop.simps) (simp add: Get_def Let_def w2_def)
    with f q rw False show ?thesis by simp
  qed
qed

text \<open>
  Claim C1. Whenever the remote side serves a sequence of pages in which every page but
  the last has a non-empty \<open>next\<close> cursor and the last has an empty one, \<open>fetchPlaylists\<close>
  and \<open>fetchPlaylistTracks\<close> return the items of all the pages, concatenated in the order
  of the pages, and issue exactly one GET request per page: the initial URL, then the
  cursor of every page but the last.
\<close>

theorem C1_fetch_concatenates_pages:
  "(playlist_pages client (server w) fetchPlaylists_url ps \<longrightarrow>
      (\<exists>w'. fetchPlaylists client w = Some (Inr (concat (map PlaylistPage.Items ps)), w')
           \<and> requests w' = requests w @ fetchPlaylists_url # map PlaylistPage.Next (butlast ps)
           \<and> length (requests w') = length (requests w) + length ps))
   \<and> (tracks_pages client (server v) (fetchPlaylistTracks_url playlist) ts \<longrightarrow>
      (\<exists>v'. fetchPlaylistTracks client playlist v
               = Some (Inr (concat (map TracksPage.Items ts)), v')
           \<and> requests v' = requests v @ fetchPlaylistTracks_url playlist
                               # map TracksPage.Next (butlast ts)
           \<and> length (requests v') = length (requests v) + length ts))"
proof (intro conjI impI)
  assume h: "playlist_pages client (server w) fetchPlaylists_url ps"
  from fetchPlaylists_loop_pages[OF h fetchPlaylists_url_nonempty, of "[]"] obtain w' where
    f: "fetchPlaylists client w = Some (Inr (concat (map PlaylistPage.Items ps)), w')"
    and q: "requests w' = requests w @ fetchPlaylists_url # map PlaylistPage.Next (butlast ps)"
    by (auto simp: fetchPlaylists_def)
  from playlist_pages_nonempty[OF h] q
  have "length (requests w') = length (requests w) + length ps" by simp
  with f q show "\<exists>w'. fetchPlaylists client w = Some (Inr (concat (map PlaylistPage.Items ps)), w')
           \<and> requests w' = requests w @ fetchPlaylists_url # map PlaylistPage.Next (butlast ps)
           \<and> length (requests w') = length (requests w) + length ps" by blast
next
  assume h: "tracks_pages client (server v) (fetchPlaylistTracks_url playlist) ts"
  from fetchPlaylistTracks_loop_pages[OF h fetchPlaylistTracks_url_nonempty, of playlist "[]"]
  obtain v' where
    f: "fetchPlaylistTracks client playlist v
          = Some (Inr (concat (map TracksPage.Items ts)), v')"
    and q: "requests v' = requests v @ fetchPlaylistTracks_url playlist
                               # map TracksPage.Next (butlast ts)"
    by (auto simp: fetchPlaylistTracks_def)
  from tracks_pages_nonempty[OF h] q
  have "length (requests v') = length (requests v) + length ts" by simp
  with f q show "\<exists>v'. fetchPlaylistTracks client playlist v
               = Some (Inr (concat (map TracksPage.Items ts)), v')
           \<and> requests v' = requests v @ fetchPlaylistTracks_url playlist
                               # map TracksPage.Next (butlast ts)
           \<and> length (requests v') = length (requests v) + length ts" by blast
qed

lemma fetchPlaylists_url_eq:
  "fetchPlaylists_url = ''https://api.spotify.com/v1/me/playlists?offset=0&limit=50''"
  by (simp add: fetchPlaylists_url_def baseAPIAddress_def itoa.simps)

lemma fetchSavedTracks_url_eq:
  "fetchSavedTracks_url = ''https://api.spotify.com/v1/me/tracks?offset=0&limit=50''"
  by (simp add: fetchSavedTracks_url_def baseAPIAddress_def itoa.simps)

lemma fetchPlaylistTracks_url_eq:
  "fetchPlaylistTracks_url playlist
     = ''https://api.spotify.com/v1/playlists/'' @ Playlist.Id playlist @ ''/tracks?offset=0&limit=100''"
  by (simp add: fetchPlaylistTracks_url_def baseAPIAddress_def itoa.simps)

lemma remote_playlists1: "remote s fetchPlaylists_url = (ok (playlists_json playlists1), s)"
  by (simp add: remote_def)

lemma remote_playlists2: "remote s ''https://api.spotify.com/m2'' = (ok (playlists_json playlists2), s)"
  by (simp add: remote_def fetchPlaylists_url_eq)

lemma remote_road1: "remote s (fetchPlaylistTracks_url Road) = (ok (tracks_json road1), s)"
  by (simp add: remote_def fetchPlaylists_url_eq fetchPlaylistTracks_url_eq Road_def)

lemma remote_road2: "remote s ''https://api.spotify.com/r2'' = (ok (tracks_json road2), s)"
  by (simp add: remote_def fetchPlaylists_url_eq fetchPlaylistTracks_url_eq Road_def)

theorem C1_witness:
  "playlist_pages remote (server world0) fetchPlaylists_url [playlists1, playlists2]
   \<and> tracks_pages remote (server world0) (fetchPlaylistTracks_url Road) [road1, road2]
   \<and> map_option fst (fetchPlaylists remote world0) = Some (Inr [Road, Rain, Rest])
   \<and> map_option (requests \<circ> snd) (fetchPlaylists remote world0)
       = Some [fetchPlaylists_url, ''https://api.spotify.com/m2'']
   \<and> map_option fst (fetchPlaylistTracks remote Road world0)
       = Some (Inr [item ''One'' ''2023-01-01'', item ''Two'' ''2023-01-02''])
   \<and> map_option (requests \<circ> snd) (fetchPlaylistTracks remote Road world0)
       = Some [fetchPlaylistTracks_url Road, ''https://api.spotify.com/r2'']"
proof -
  have a: "playlist_pages remote (server world0) fetchPlaylists_url [playlists1, playlists2]"
    by (simp add: remote_playlists1 remote_playlists2 ok_def playlists_json_def
          playlists1_def playlists2_def)
  have b: "tracks_pages remote (server world0) (fetchPlaylistTracks_url Road) [road1, road2]"
    by (simp add: remote_road1 remote_road2 ok_def tracks_json_def road1_def road2_def)
  from a b C1_fetch_concatenates_pages
    [of remote world0 "[playlists1, playlists2]" world0 Road "[road1, road2]"]
  show ?thesis
    by (auto simp: playlists1_def playlists2_def road1_def road2_def world0_def)
qed

section \<open>Saved tracks: the short page and the empty cursor\<close>

lemma short_page_run_nonempty: "short_page_run client s url ps \<Longrightarrow> ps \<noteq> []"
  by (cases ps) simp_all

lemma fetchSavedTracks_loop_run:
  "short_page_run client (server w) url ps \<Longrightarrow>
   \<exists>w'. fetchSavedTracks_loop client w acc url
           = Some (Inr (acc @ concat (map TracksPage.Items ps)), w')
       \<and> requests w' = requests w @ url # map TracksPage.Next (butlast ps)"
proof (induction ps arbitrary: w acc url)
  case Nil
  then show ?case by simp
next
  case (Cons p ps)
  from Cons.prems obtain r s' data where
    c: "client (server w) url = ((Some r, None), s')" and
    b: "Body r = Inr data" and
    p: "fst (as_TracksPage data) = p" and
    n: "if ps = [] then length (TracksPage.Items p) < 50
        else 50 \<le> length (TracksPage.Items p)
             \<and> short_page_run client s' (TracksPage.Next p) ps"
    by (auto split: prod.splits option.splits sum.splits)
  show ?case
  proof (cases "ps = []")
    case True
    with n have "length (TracksPage.Items p) < 50" by simp
    with c b p True show ?thesis
      by (subst fetchSavedTracks_loop.simps) (simp add: Get_def Let_def)
  next
    case False
    with n have full: "\<not> length (TracksPage.Items p) < 50"
      and pp: "short_page_run client s' (TracksPage.Next p) ps" by simp_all
    define w2 where "w2 = Printf (''Fetched '' @ itoa (length (acc @ TracksPage.Items p))
                                   @ '' saved tracks'' @ [CHR 10])
                            (w\<lparr>server := s', requests := requests w @ [url]\<rparr>)"
    have sw: "server w2 = s'" and rw: "requests w2 = requests w @ [url]"
      by (simp_all add: w2_def Printf_def)
    from pp sw have "short_page_run client (server w2) (TracksPage.Next p) ps" by simp
    from Cons.IH[OF this, of "acc @ TracksPage.Items p"] obtain w' where
      f: "fetchSavedTracks_loop client w2 (acc @ TracksPage.Items p) (TracksPage.Next p)
            = Some (Inr ((acc @ TracksPage.Items p) @ concat (map TracksPage.Items ps)), w')"
      and q: "requests w' = requests w2 @ TracksPage.Next p # map TracksPage.Next (butlast ps)"
      by blast
    have "fetchSavedTracks_loop client w acc url
            = fetchSavedTracks_loop client w2 (acc @ TracksPage.Items p) (TracksPage.Next p)"
      using c b p full
      by (subst fetchSavedTracks_loop.simps) (simp add: Get_def Let_def w2_def)
    with f q rw False show ?thesis by simp
  qed
qed

text \<open>
  Claim C5. Whenever the remote side serves saved tracks in pages of which one has fewer
  than 50 items, all pages before it being full, \<open>fetchSavedTracks\<close> ends at that page,
  whatever its \<open>next\<close> cursor is, and returns the items of all pages up to and including
  it, in order, after one GET request per page.
\<close>

theorem C5_short_page_ends_saved_tracks:
  "short_page_run client (server w) fetchSavedTracks_url ps \<longrightarrow>
     (\<exists>w'. fetchSavedTracks client w = Some (Inr (concat (map TracksPage.Items ps)), w')
          \<and> requests w' = requests w @ fetchSavedTracks_url # map TracksPage.Next (butlast ps)
          \<and> length (requests w') = length (requests w) + length ps)"
proof
  assume h: "short_page_run client (server w) fetchSavedTracks_url ps"
  from fetchSavedTracks_loop_run[OF h, of "[]"] obtain w' where
    f: "fetchSavedTracks client w = Some (Inr (concat (map TracksPage.Items ps)), w')"
    and q: "requests w' = requests w @ fetchSavedTracks_url # map TracksPage.Next (butlast ps)"
    by (auto simp: fetchSavedTracks_def)
  from short_page_run_nonempty[OF h] q
  have "length (requests w') = length (requests w) + length ps" by simp
  with f q show "\<exists>w'. fetchSavedTracks client w = Some (Inr (concat (map TracksPage.Items ps)), w')
          \<and> requests w' = requests w @ fetchSavedTracks_url # map TracksPage.Next (butlast ps)
          \<and> length (requests w') = length (requests w) + length ps" by blast
qed

lemma remote_saved1: "remote s fetchSavedTracks_url = (ok (tracks_json saved1), s)"
  by (simp add: remote_def fetchPlaylists_url_eq fetchPlaylistTracks_url_eq fetchSavedTracks_url_eq)

lemma remote_saved2: "remote s ''https://api.spotify.com/s2'' = (ok (tracks_json saved2), s)"
  by (simp add: remote_def fetchPlaylists_url_eq fetchPlaylistTracks_url_eq fetchSavedTracks_url_eq)

theorem C5_witness:
  "short_page_run remote (server world0) fetchSavedTracks_url [saved1, saved2]
   \<and> TracksPage.Next saved2 \<noteq> []
   \<and> map_option fst (fetchSavedTracks remote world0)
       = Some (Inr (replicate 50 (item ''Liked'' ''2023-02-01'') @ [item ''Last'' ''2023-02-02'']))
   \<and> map_option (requests \<circ> snd) (fetchSavedTracks remote world0)
       = Some [fetchSavedTracks_url, ''https://api.spotify.com/s2'']"
proof -
  have a: "short_page_run remote (server world0) fetchSavedTracks_url [saved1, saved2]"
    by (simp add: remote_saved1 remote_saved2 ok_def tracks_json_def saved1_def saved2_def)
  from a C5_short_page_ends_saved_tracks[of remote world0 "[saved1, saved2]"]
  show ?thesis
    by (auto simp: saved1_def saved2_def world0_def)
qed

lemma library_of_50_first: "library_of_50 s fetchSavedTracks_url = (ok (tracks_json fifty), s)"
  by (simp add: library_of_50_def)

lemma library_of_50_empty: "library_of_50 s [] = ((None, Some (Cause ''unsupported protocol scheme'')), s)"
  by (simp add: library_of_50_def fetchSavedTracks_url_eq)

text \<open>
  Claim C2 says that \<open>fetchSavedTracks\<close> ends at a page whose \<open>next\<close> cursor is empty,
  whatever its item count. The loop has no test of the cursor. On a library of exactly 50
  saved tracks the only page is full and its cursor is empty: the loop goes on, requests
  the empty URL, and returns the error of that request in place of the 50 tracks.
\<close>

theorem C2_empty_cursor_does_not_end_saved_tracks:
  "TracksPage.Next fifty = []
   \<and> map_option fst (fetchSavedTracks library_of_50 world0)
       = Some (Inl (Returned (Wrap (Cause ''unsupported protocol scheme'')
                                ''failed to fetch saved tracks'')))
   \<and> map_option (requests \<circ> snd) (fetchSavedTracks library_of_50 world0)
       = Some [fetchSavedTracks_url, []]"
proof -
  define w1 where "w1 = world0\<lparr>requests := [fetchSavedTracks_url]\<rparr>"
  define w2 where "w2 = Printf (''Fetched '' @ itoa (length (TracksPage.Items fifty))
                                  @ '' saved tracks'' @ [CHR 10]) w1"
  have g1: "Get library_of_50 fetchSavedTracks_url world0
              = ((Some \<lparr>Body = Inr (tracks_json fifty)\<rparr>, None), w1)"
    by (simp add: Get_def library_of_50_first ok_def w1_def world0_def)
  have b1: "Body \<lparr>Body = Inr (tracks_json fifty)\<rparr> = Inr (tracks_json fifty)" by simp
  have full: "\<not> length (TracksPage.Items (fst (as_TracksPage (tracks_json fifty)))) < 50"
    by (simp add: tracks_json_def fifty_def)
  have s1: "fetchSavedTracks library_of_50 world0
              = fetchSavedTracks_loop library_of_50 w2 (TracksPage.Items fifty) []"
    using fetchSavedTracks_loop_full_page[OF g1 b1 full, of "[]"]
    by (simp add: fetchSavedTracks_def tracks_json_def w2_def fifty_def)
  have g2: "Get library_of_50 [] w2
              = ((None, Some (Cause ''unsupported protocol scheme'')),
                 w2\<lparr>requests := [fetchSavedTracks_url, []]\<rparr>)"
    by (simp add: Get_def library_of_50_empty w2_def w1_def Printf_def world0_def)
  from s1 fetchSavedTracks_loop_get_error[OF g2]
  show ?thesis by (simp add: fifty_def)
qed

section \<open>Decode errors\<close>

lemma Get_without_decode_errors:
  "Get client url w = ((resp, err), w1) \<Longrightarrow>
   Get (without_decode_errors client) url w
     = ((case resp of
           None \<Rightarrow> None
         | Some r \<Rightarrow>
             Some \<lparr>Body = (case Body r of
                             Inl e \<Rightarrow> Inl e
                           | Inr data \<Rightarrow>
                               Inr \<lparr>as_PlaylistPage = (fst (as_PlaylistPage data), None),
                                    as_TracksPage = (fst (as_TracksPage data), None)\<rparr>)\<rparr>,
         err), w1)"
  by (auto simp: Get_def without_decode_errors_def split: prod.splits)

lemma fetchPlaylists_loop_drop_errors:
  "fetchPlaylists_loop client w acc url = Some y \<Longrightarrow>
   fetchPlaylists_loop (without_decode_errors client) w acc url = Some y"
proof (induction rule: fetchPlaylists_loop.raw_induct[rotated 1, consumes 1, case_names step])
  case (step f client w acc url y)
  show ?case
  proof (cases "url = []")
    case True
    with step(2) show ?thesis by (simp add: fetchPlaylists_loop_done)
  next
    case False
    obtain resp err w1 where g: "Get client url w = ((resp, err), w1)"
      by (metis surj_pair)
    note g' = Get_without_decode_errors[OF g]
    show ?thesis
    proof (cases resp)
      case None
      with step(2) False g have "y = (Inl NilDereference, w1)"
        by (auto split: option.splits)
      with None g' False show ?thesis
        by (simp add: fetchPlaylists_loop_get_nil)
    next
      case (Some r)
      show ?thesis
      proof (cases err)
        case (Some e)
        with step(2) False g \<open>resp = Some r\<close> g' show ?thesis
          by (simp add: fetchPlaylists_loop_get_error)
      next
        case None
        show ?thesis
        proof (cases "Body r")
          case (Inl e)
          with step(2) False g \<open>resp = Some r\<close> None g' show ?thesis
            by (simp add: fetchPlaylists_loop_read_error)
        next
          case (Inr data)
          with step(2) False g \<open>resp = Some r\<close> None
          have "f client
                  (Printf (''Fetched ''
                     @ itoa (length (acc @ PlaylistPage.Items (fst (as_PlaylistPage data))))
                     @ '' playlists'' @ [CHR 10]) w1)
                  (acc @ PlaylistPage.Items (fst (as_PlaylistPage data)))
                  (PlaylistPage.Next (fst (as_PlaylistPage data))) = Some y"
            by (simp add: Let_def)
          from step(1)[OF this] Inr \<open>resp = Some r\<close> None g' False show ?thesis
            by (simp add: fetchPlaylists_loop_page)
        qed
      qed
    qed
  qed
qed

lemma fetchPlaylists_loop_restore_errors:
  "fetchPlaylists_loop c w acc url = Some y \<Longrightarrow> c = without_decode_errors client \<Longrightarrow>
   fetchPlaylists_loop client w acc url = Some y"
proof (induction rule: fetchPlaylists_loop.raw_induct[rotated 1, consumes 1, case_names step])
  case (step f c w acc url y)
  note c = \<open>c = without_decode_errors client\<close>
  show ?case
  proof (cases "url = []")
    case True
    with step(2) show ?thesis by (simp add: fetchPlaylists_loop_done)
  next
    case False
    obtain resp err w1 where g: "Get client url w = ((resp, err), w1)"
      by (metis surj_pair)
    note g' = Get_without_decode_errors[OF g, folded c]
    show ?thesis
    proof (cases resp)
      case None
      with step(2) False g' have "y = (Inl NilDereference, w1)"
        by (auto split: option.splits)
      with None g False show ?thesis
        by (simp add: fetchPlaylists_loop_get_nil)
    next
      case (Some r)
      show ?thesis
      proof (cases err)
        case (Some e)
        with step(2) False g \<open>resp = Some r\<close> g' show ?thesis
          by (simp add: fetchPlaylists_loop_get_error)
      next
        case None
        show ?thesis
        proof (cases "Body r")
          case (Inl e)
          with step(2) False g \<open>resp = Some r\<close> None g' show ?thesis
            by (simp add: fetchPlaylists_loop_read_error)
        next
          case (Inr data)
          with step(2) False g' \<open>resp = Some r\<close> None
          have "f c
                  (Printf (''Fetched ''
                     @ itoa (length (acc @ PlaylistPage.Items (fst (as_PlaylistPage data))))
                     @ '' playlists'' @ [CHR 10]) w1)
                  (acc @ PlaylistPage.Items (fst (as_PlaylistPage data)))
                  (PlaylistPage.Next (fst (as_PlaylistPage data))) = Some y"
            by (simp add: Let_def)
          from step(1)[OF this c] Inr \<open>resp = Some r\<close> None g False show ?thesis
            by (simp add: fetchPlaylists_loop_page)
        qed
      qed
    qed
  qed
qed

lemma fetchPlaylists_loop_decode_errors:
  "fetchPlaylists_loop (without_decode_errors client) w acc url
     = fetchPlaylists_loop client w acc url"
proof (cases "fetchPlaylists_loop client w acc url")
  case None
  show ?thesis
  proof (cases "fetchPlaylists_loop (without_decode_errors client) w acc url")
    case None
    with \<open>fetchPlaylists_loop client w acc url = None\<close> show ?thesis by simp
  next
    case (Some y)
    from fetchPlaylists_loop_restore_errors[OF this refl] None show ?thesis by simp
  qed
next
  case (Some y)
  from fetchPlaylists_loop_drop_errors[OF this] Some show ?thesis by simp
qed

lemma fetchPlaylistTracks_loop_drop_errors:
  "fetchPlaylistTracks_loop client playlist w acc url = Some y \<Longrightarrow>
   fetchPlaylistTracks_loop (without_decode_errors client) playlist w acc url = Some y"
proof (induction rule: fetchPlaylistTracks_loop.raw_induct[rotated 1, consumes 1, case_names step])
  case (step f client playlist w acc url y)
  show ?case
  proof (cases "url = []")
    case True
    with step(2) show ?thesis by (simp add: fetchPlaylistTracks_loop_done)
  next
    case False
    obtain resp err w1 where g: "Get client url w = ((resp, err), w1)"
      by (metis surj_pair)
    note g' = Get_without_decode_errors[OF g]
    show ?thesis
    proof (cases resp)
      case None
      with step(2) False g have "y = (Inl NilDereference, w1)"
        by (auto split: option.splits)
      with None g' False show ?thesis
        by (simp add: fetchPlaylistTracks_loop_get_nil)
    next
      case (Some r)
      show ?thesis
      proof (cases err)
        case (Some e)
        with step(2) False g \<open>resp = Some r\<close> g' show ?thesis
          by (simp add: fetchPlaylistTracks_loop_get_error)
      next
        case None
        show ?thesis
        proof (cases "Body r")
          case (Inl e)
          with step(2) False g \<open>resp = Some r\<close> None g' show ?thesis
            by (simp add: fetchPlaylistTracks_loop_read_error)
        next
          case (Inr data)
          with step(2) False g \<open>resp = Some r\<close> None
          have "f client playlist
                  (Printf (''Fetched ''
                     @ itoa (length (TracksPage.Items (fst (as_TracksPage data))))
                     @ '' tracks for playlist '' @ Playlist.Name playlist
                     @ ''. Total tracks: ''
                     @ itoa (length (acc @ TracksPage.Items (fst (as_TracksPage data))))
                     @ [CHR 10]) w1)
                  (acc @ TracksPage.Items (fst (as_TracksPage data)))
                  (TracksPage.Next (fst (as_TracksPage data))) = Some y"
            by (simp add: Let_def)
          from step(1)[OF this] Inr \<open>resp = Some r\<close> None g' False show ?thesis
            by (simp add: fetchPlaylistTracks_loop_page)
        qed
      qed
    qed
  qed
qed

lemma fetchPlaylistTracks_loop_restore_errors:
  "fetchPlaylistTracks_loop c playlist w acc url = Some y \<Longrightarrow> c = without_decode_errors client \<Longrightarrow>
   fetchPlaylistTracks_loop client playlist w acc url = Some y"
proof (induction rule: fetchPlaylistTracks_loop.raw_induct[rotated 1, consumes 1, case_names step])
  case (step f c playlist w acc url y)
  note c = \<open>c = without_decode_errors client\<close>
  show ?case
  proof (cases "url = []")
    case True
    with step(2) show ?thesis by (simp add: fetchPlaylistTracks_loop_done)
  next
    case False
    obtain resp err w1 where g: "Get client url w = ((resp, err), w1)"
      by (metis surj_pair)
    note g' = Get_without_decode_errors[OF g, folded c]
    show ?thesis
    proof (cases resp)
      case None
      with step(2) False g' have "y = (Inl NilDereference, w1)"
        by (auto split: option.splits)
      with None g False show ?thesis
        by (simp add: fetchPlaylistTracks_loop_get_nil)
    next
      case (Some r)
      show ?thesis
      proof (cases err)
        case (Some e)
        with step(2) False g \<open>resp = Some r\<close> g' show ?thesis
          by (simp add: fetchPlaylistTracks_loop_get_error)
      next
        case None
        show ?thesis
        proof (cases "Body r")
          case (Inl e)
          with step(2) False g \<open>resp = Some r\<close> None g' show ?thesis
            by (simp add: fetchPlaylistTracks_loop_read_error)
        next
          case (Inr data)
          with step(2) False g' \<open>resp = Some r\<close> None
          have "f c playlist
                  (Printf (''Fetched ''
                     @ itoa (length (TracksPage.Items (fst (as_TracksPage data))))
                     @ '' tracks for playlist '' @ Playlist.Name playlist
                     @ ''. Total tracks: ''
                     @ itoa (length (acc @ TracksPage.Items (fst (as_TracksPage data))))
                     @ [CHR 10]) w1)
                  (acc @ TracksPage.Items (fst (as_TracksPage data)))
                  (TracksPage.Next (fst (as_TracksPage data))) = Some y"
            by (simp add: Let_def)
          from step(1)[OF this c] Inr \<open>resp = Some r\<close> None g False show ?thesis
            by (simp add: fetchPlaylistTracks_loop_page)
        qed
      qed
    qed
  qed
qed

lemma fetchPlaylistTracks_loop_decode_errors:
  "fetchPlaylistTracks_loop (without_decode_errors client) playlist w acc url
     = fetchPlaylistTracks_loop client playlist w acc url"
proof (cases "fetchPlaylistTracks_loop client playlist w acc url")
  case None
  show ?thesis
  proof (cases "fetchPlaylistTracks_loop (without_decode_errors client) playlist w acc url")
    case None
    with \<open>fetchPlaylistTracks_loop client playlist w acc url = None\<close> show ?thesis by simp
  next
    case (Some y)
    from fetchPlaylistTracks_loop_restore_errors[OF this refl] None show ?thesis by simp
  qed
next
  case (Some y)
  from fetchPlaylistTracks_loop_drop_errors[OF this] Some show ?thesis by simp
qed


lemma fetchSavedTracks_loop_drop_errors:
  "fetchSavedTracks_loop client w acc url = Some y \<Longrightarrow>
   fetchSavedTracks_loop (without_decode_errors client) w acc url = Some y"
proof (induction rule: fetchSavedTracks_loop.raw_induct[rotated 1, consumes 1, case_names step])
  case (step f client w acc url y)
  obtain resp err w1 where g: "Get client url w = ((resp, err), w1)"
    by (metis surj_pair)
  note g' = Get_without_decode_errors[OF g]
  show ?case
  proof (cases err)
    case (Some e)
    with step(2) g g' show ?thesis
      by (simp add: fetchSavedTracks_loop_get_error)
  next
    case None
    show ?thesis
    proof (cases resp)
      case None
      with step(2) g g' \<open>err = None\<close> show ?thesis
        by (simp add: fetchSavedTracks_loop_get_nil)
    next
      case (Some r)
      show ?thesis
      proof (cases "Body r")
        case (Inl e)
        with step(2) g \<open>resp = Some r\<close> None g' show ?thesis
          by (simp add: fetchSavedTracks_loop_read_error)
      next
        case (Inr data)
        show ?thesis
        proof (cases "length (TracksPage.Items (fst (as_TracksPage data))) < 50")
          case True
          with step(2) g \<open>resp = Some r\<close> None g' Inr show ?thesis
            by (simp add: fetchSavedTracks_loop_short_page Let_def)
        next
          case False
          with step(2) g \<open>resp = Some r\<close> None Inr
          have "f client
                  (Printf (''Fetched ''
                     @ itoa (length (acc @ TracksPage.Items (fst (as_TracksPage data))))
                     @ '' saved tracks'' @ [CHR 10]) w1)
                  (acc @ TracksPage.Items (fst (as_TracksPage data)))
                  (TracksPage.Next (fst (as_TracksPage data))) = Some y"
            by (simp add: Let_def)
          from step(1)[OF this] Inr \<open>resp = Some r\<close> None g' False show ?thesis
            by (simp add: fetchSavedTracks_loop_full_page)
        qed
      qed
    qed
  qed
qed

lemma fetchSavedTracks_loop_restore_errors:
  "fetchSavedTracks_loop c w acc url = Some y \<Longrightarrow> c = without_decode_errors client \<Longrightarrow>
   fetchSavedTracks_loop client w acc url = Some y"
proof (induction rule: fetchSavedTracks_loop.raw_induct[rotated 1, consumes 1, case_names step])
  case (step f c w acc url y)
  note c = \<open>c = without_decode_errors client\<close>
  obtain resp err w1 where g: "Get client url w = ((resp, err), w1)"
    by (metis surj_pair)
  note g' = Get_without_decode_errors[OF g, folded c]
  show ?case
  proof (cases err)
    case (Some e)
    with step(2) g g' show ?thesis
      by (simp add: fetchSavedTracks_loop_get_error)
  next
    case None
    show ?thesis
    proof (cases resp)
      case None
      with step(2) g g' \<open>err = None\<close> show ?thesis
        by (simp add: fetchSavedTracks_loop_get_nil)
    next
      case (Some r)
      show ?thesis
      proof (cases "Body r")
        case (Inl e)
        with step(2) g \<open>resp = Some r\<close> None g' show ?thesis
          by (simp add: fetchSavedTracks_loop_read_error)
      next
        case (Inr data)
        show ?thesis
        proof (cases "length (TracksPage.Items (fst (as_TracksPage data))) < 50")
          case True
          with step(2) g \<open>resp = Some r\<close> None g' Inr show ?thesis
            by (simp add: fetchSavedTracks_loop_short_page Let_def)
        next
          case False
          with step(2) g' \<open>resp = Some r\<close> None Inr
          have "f c
                  (Printf (''Fetched ''
                     @ itoa (length (acc @ TracksPage.Items (fst (as_TracksPage data))))
                     @ '' saved tracks'' @ [CHR 10]) w1)
                  (acc @ TracksPage.Items (fst (as_TracksPage data)))
                  (TracksPage.Next (fst (as_TracksPage data))) = Some y"
            by (simp add: Let_def)
          from step(1)[OF this c] Inr \<open>resp = Some r\<close> None g False show ?thesis
            by (simp add: fetchSavedTracks_loop_full_page)
        qed
      qed
    qed
  qed
qed

lemma fetchSavedTracks_loop_decode_errors:
  "fetchSavedTracks_loop (without_decode_errors client) w acc url
     = fetchSavedTracks_loop client w acc url"
proof (cases "fetchSavedTracks_loop client w acc url")
  case None
  show ?thesis
  proof (cases "fetchSavedTracks_loop (without_decode_errors client) w acc url")
    case None
    with \<open>fetchSavedTracks_loop client w acc url = None\<close> show ?thesis by simp
  next
    case (Some y)
    from fetchSavedTracks_loop_restore_errors[OF this refl] None show ?thesis by simp
  qed
next
  case (Some y)
  from fetchSavedTracks_loop_drop_errors[OF this] Some show ?thesis by simp
qed

text \<open>
  The error of \<open>json.Unmarshal\<close> has no effect on any run of the three fetchers: the
  outcome and the world left behind are those of the run in which every body decodes to
  the same page value without an error.
\<close>

lemma decode_errors_have_no_effect:
  "fetchPlaylists (without_decode_errors client) w = fetchPlaylists client w
   \<and> fetchPlaylistTracks (without_decode_errors client) playlist w
       = fetchPlaylistTracks client playlist w
   \<and> fetchSavedTracks (without_decode_errors client) w = fetchSavedTracks client w"
  by (simp add: fetchPlaylists_def fetchPlaylistTracks_def fetchSavedTracks_def
        fetchPlaylists_loop_decode_errors fetchPlaylistTracks_loop_decode_errors
        fetchSavedTracks_loop_decode_errors)

lemma garbled_first:
  "garbled_second_page s fetchPlaylists_url = (ok (playlists_json playlists1), s)"
  "garbled_second_page s (fetchPlaylistTracks_url Road) = (ok (tracks_json road1), s)"
  "garbled_second_page s fetchSavedTracks_url = (ok (tracks_json saved1), s)"
  by (simp_all add: garbled_second_page_def fetchPlaylists_url_eq fetchPlaylistTracks_url_eq
        fetchSavedTracks_url_eq Road_def)

lemma garbled_second:
  "garbled_second_page s ''https://api.spotify.com/m2'' = (ok not_json, s)"
  "garbled_second_page s ''https://api.spotify.com/r2'' = (ok not_json, s)"
  "garbled_second_page s ''https://api.spotify.com/s2'' = (ok not_json, s)"
  by (simp_all add: garbled_second_page_def fetchPlaylists_url_eq fetchPlaylistTracks_url_eq
        fetchSavedTracks_url_eq Road_def)

text \<open>
  Claim C4 says that a body which fails to deserialize aborts the fetch and that the
  decode error is returned, with no partial result. The three fetchers call
  \<open>json.Unmarshal\<close> and drop what it returns. Here the second page of each collection is
  not JSON: the decoder reports an error and leaves the zero page, whose cursor is empty
  and which has no items. Each fetcher ends there with a nil error and returns the items
  of the first page alone, after two requests.
\<close>

theorem C4_decode_error_is_dropped:
  "snd (as_PlaylistPage not_json) \<noteq> None
   \<and> snd (as_TracksPage not_json) \<noteq> None
   \<and> map_option fst (fetchPlaylists garbled_second_page world0) = Some (Inr [Road, Rain])
   \<and> map_option (requests \<circ> snd) (fetchPlaylists garbled_second_page world0)
       = Some [fetchPlaylists_url, ''https://api.spotify.com/m2'']
   \<and> map_option fst (fetchPlaylistTracks garbled_second_page Road world0)
       = Some (Inr [item ''One'' ''2023-01-01''])
   \<and> map_option (requests \<circ> snd) (fetchPlaylistTracks garbled_second_page Road world0)
       = Some [fetchPlaylistTracks_url Road, ''https://api.spotify.com/r2'']
   \<and> map_option fst (fetchSavedTracks garbled_second_page world0)
       = Some (Inr (replicate 50 (item ''Liked'' ''2023-02-01'')))
   \<and> map_option (requests \<circ> snd) (fetchSavedTracks garbled_second_page world0)
       = Some [fetchSavedTracks_url, ''https://api.spotify.com/s2'']"
proof -
  have p: "playlist_pages garbled_second_page (server world0) fetchPlaylists_url
             [playlists1, zero_PlaylistPage]"
    by (simp add: garbled_first garbled_second ok_def playlists_json_def not_json_def
          playlists1_def zero_PlaylistPage_def)
  have t: "tracks_pages garbled_second_page (server world0) (fetchPlaylistTracks_url Road)
             [road1, zero_TracksPage]"
    by (simp add: garbled_first garbled_second ok_def tracks_json_def not_json_def
          road1_def zero_TracksPage_def)
  have s: "short_page_run garbled_second_page (server world0) fetchSavedTracks_url
             [saved1, zero_TracksPage]"
    by (simp add: garbled_first garbled_second ok_def tracks_json_def not_json_def
          saved1_def zero_TracksPage_def)
  from fetchPlaylists_loop_pages[OF p fetchPlaylists_url_nonempty, of "[]"]
  have 1: "map_option fst (fetchPlaylists garbled_second_page world0) = Some (Inr [Road, Rain])"
    and 2: "map_option (requests \<circ> snd) (fetchPlaylists garbled_second_page world0)
              = Some [fetchPlaylists_url, ''https://api.spotify.com/m2'']"
    by (auto simp: fetchPlaylists_def playlists1_def zero_PlaylistPage_def world0_def)
  from fetchPlaylistTracks_loop_pages[OF t fetchPlaylistTracks_url_nonempty, of Road "[]"]
  have 3: "map_option fst (fetchPlaylistTracks garbled_second_page Road world0)
             = Some (Inr [item ''One'' ''2023-01-01''])"
    and 4: "map_option (requests \<circ> snd) (fetchPlaylistTracks garbled_second_page Road world0)
              = Some [fetchPlaylistTracks_url Road, ''https://api.spotify.com/r2'']"
    by (auto simp: fetchPlaylistTracks_def road1_def zero_TracksPage_def world0_def)
  from fetchSavedTracks_loop_run[OF s, of "[]"]
  have 5: "map_option fst (fetchSavedTracks garbled_second_page world0)
             = Some (Inr (replicate 50 (item ''Liked'' ''2023-02-01'')))"
    and 6: "map_option (requests \<circ> snd) (fetchSavedTracks garbled_second_page world0)
              = Some [fetchSavedTracks_url, ''https://api.spotify.com/s2'']"
    by (auto simp: fetchSavedTracks_def saved1_def zero_TracksPage_def world0_def)
  have 0: "snd (as_PlaylistPage not_json) \<noteq> None" "snd (as_TracksPage not_json) \<noteq> None"
    by (simp_all add: not_json_def)
  from 0 1 2 3 4 5 6 show ?thesis by blast
qed

section \<open>Transport errors\<close>

lemma Get_offline:
  "Get offline url w
     = ((None, Some (Cause ''connection refused'')), w\<lparr>requests := requests w @ [url]\<rparr>)"
  by (simp add: Get_def offline_def)

lemma lost_first:
  "lost_after_first_page s fetchPlaylists_url = (ok (playlists_json playlists1), s)"
  "lost_after_first_page s (fetchPlaylistTracks_url Road) = (ok (tracks_json road1), s)"
  "lost_after_first_page s fetchSavedTracks_url = (ok (tracks_json saved1), s)"
  by (simp_all add: lost_after_first_page_def fetchPlaylists_url_eq fetchPlaylistTracks_url_eq
        fetchSavedTracks_url_eq Road_def)

lemma lost_second:
  "lost_after_first_page s ''https://api.spotify.com/m2'' = ((None, Some (Cause ''connection refused'')), s)"
  "lost_after_first_page s ''https://api.spotify.com/r2'' = ((None, Some (Cause ''connection refused'')), s)"
  "lost_after_first_page s ''https://api.spotify.com/s2'' = ((None, Some (Cause ''connection refused'')), s)"
  by (simp_all add: lost_after_first_page_def fetchPlaylists_url_eq fetchPlaylistTracks_url_eq
        fetchSavedTracks_url_eq Road_def)

text \<open>
  Claim C3 says that a transport error is returned, wrapped, to the caller. On a transport
  error \<open>client.Get\<close> returns a nil response, and \<open>fetchPlaylists\<close> and
  \<open>fetchPlaylistTracks\<close> call \<open>resp.Body.Close()\<close> on it before they reach their
  \<open>return\<close>: the run ends in a nil dereference, at the first request and after a first
  page alike. \<open>fetchSavedTracks\<close>, which has no such call, returns the wrapped error and
  no items.
\<close>

theorem C3_transport_error_panics:
  "map_option fst (fetchPlaylists offline world0) = Some (Inl NilDereference)
   \<and> map_option fst (fetchPlaylistTracks offline Road world0) = Some (Inl NilDereference)
   \<and> map_option fst (fetchPlaylists lost_after_first_page world0) = Some (Inl NilDereference)
   \<and> map_option fst (fetchPlaylistTracks lost_after_first_page Road world0)
       = Some (Inl NilDereference)
   \<and> map_option fst (fetchSavedTracks lost_after_first_page world0)
       = Some (Inl (Returned (Wrap (Cause ''connection refused'')
                                ''failed to fetch saved tracks'')))"
proof -
  have 1: "map_option fst (fetchPlaylists offline world0) = Some (Inl NilDereference)"
    by (simp add: fetchPlaylists_def
          fetchPlaylists_loop_get_nil[OF Get_offline fetchPlaylists_url_nonempty])
  have 2: "map_option fst (fetchPlaylistTracks offline Road world0) = Some (Inl NilDereference)"
    by (simp add: fetchPlaylistTracks_def
          fetchPlaylistTracks_loop_get_nil[OF Get_offline fetchPlaylistTracks_url_nonempty])
  have 3: "map_option fst (fetchPlaylists lost_after_first_page world0)
             = Some (Inl NilDereference)"
  proof -
    have g1: "Get lost_after_first_page fetchPlaylists_url world0
                = ((Some \<lparr>Body = Inr (playlists_json playlists1)\<rparr>, None),
                   world0\<lparr>requests := [fetchPlaylists_url]\<rparr>)"
      by (simp add: Get_def lost_first ok_def world0_def)
    have b1: "Body \<lparr>Body = Inr (playlists_json playlists1)\<rparr> = Inr (playlists_json playlists1)"
      by simp
    define w2 where "w2 = Printf (''Fetched '' @ itoa (length ([] @ PlaylistPage.Items
                  (fst (as_PlaylistPage (playlists_json playlists1))))) @ '' playlists'' @ [CHR 10])
                  (world0\<lparr>requests := [fetchPlaylists_url]\<rparr>)"
    have g2: "Get lost_after_first_page ''https://api.spotify.com/m2'' w2
                = ((None, Some (Cause ''connection refused'')),
                   w2\<lparr>requests := requests w2 @ [''https://api.spotify.com/m2'']\<rparr>)"
      by (simp add: Get_def lost_second)
    from fetchPlaylists_loop_page[OF g1 b1 fetchPlaylists_url_nonempty, of "[]"]
         fetchPlaylists_loop_get_nil[OF g2]
    show ?thesis
      by (simp add: fetchPlaylists_def playlists_json_def playlists1_def w2_def)
  qed
  have 4: "map_option fst (fetchPlaylistTracks lost_after_first_page Road world0)
             = Some (Inl NilDereference)"
  proof -
    have g1: "Get lost_after_first_page (fetchPlaylistTracks_url Road) world0
                = ((Some \<lparr>Body = Inr (tracks_json road1)\<rparr>, None),
                   world0\<lparr>requests := [fetchPlaylistTracks_url Road]\<rparr>)"
      by (simp add: Get_def lost_first ok_def world0_def)
    have b1: "Body \<lparr>Body = Inr (tracks_json road1)\<rparr> = Inr (tracks_json road1)"
      by simp
    define w2 where "w2 = Printf (''Fetched ''
                    @ itoa (length (TracksPage.Items (fst (as_TracksPage (tracks_json road1)))))
                    @ '' tracks for playlist '' @ Playlist.Name Road
                    @ ''. Total tracks: ''
                    @ itoa (length ([] @ TracksPage.Items (fst (as_TracksPage (tracks_json road1)))))
                    @ [CHR 10]) (world0\<lparr>requests := [fetchPlaylistTracks_url Road]\<rparr>)"
    have g2: "Get lost_after_first_page ''https://api.spotify.com/r2'' w2
                = ((None, Some (Cause ''connection refused'')),
                   w2\<lparr>requests := requests w2 @ [''https://api.spotify.com/r2'']\<rparr>)"
      by (simp add: Get_def lost_second)
    from fetchPlaylistTracks_loop_page[OF g1 b1 fetchPlaylistTracks_url_nonempty, of Road "[]"]
         fetchPlaylistTracks_loop_get_nil[OF g2]
    show ?thesis
      by (simp add: fetchPlaylistTracks_def tracks_json_def road1_def w2_def)
  qed
  have 5: "map_option fst (fetchSavedTracks lost_after_first_page world0)
       = Some (Inl (Returned (Wrap (Cause ''connection refused'')
                                ''failed to fetch saved tracks'')))"
  proof -
    have g1: "Get lost_after_first_page fetchSavedTracks_url world0
                = ((Some \<lparr>Body = Inr (tracks_json saved1)\<rparr>, None),
                   world0\<lparr>requests := [fetchSavedTracks_url]\<rparr>)"
      by (simp add: Get_def lost_first ok_def world0_def)
    have b1: "Body \<lparr>Body = Inr (tracks_json saved1)\<rparr> = Inr (tracks_json saved1)"
      by simp
    have full: "\<not> length (TracksPage.Items (fst (as_TracksPage (tracks_json saved1)))) < 50"
      by (simp add: tracks_json_def saved1_def)
    define w2 where "w2 = Printf (''Fetched ''
                     @ itoa (length ([] @ TracksPage.Items (fst (as_TracksPage (tracks_json saved1)))))
                     @ '' saved tracks'' @ [CHR 10]) (world0\<lparr>requests := [fetchSavedTracks_url]\<rparr>)"
    have g2: "Get lost_after_first_page ''https://api.spotify.com/s2'' w2
                = ((None, Some (Cause ''connection refused'')),
                   w2\<lparr>requests := requests w2 @ [''https://api.spotify.com/s2'']\<rparr>)"
      by (simp add: Get_def lost_second)
    from fetchSavedTracks_loop_full_page[OF g1 b1 full, of "[]"]
         fetchSavedTracks_loop_get_error[OF g2]
    show ?thesis
      by (simp add: fetchSavedTracks_def tracks_json_def saved1_def w2_def)
  qed
  from 1 2 3 4 5 show ?thesis by blast
qed

section \<open>File names\<close>

lemma runs_Nil_iff: "runs P xs = [] \<longleftrightarrow> xs = []"
  by (cases xs) (auto split: list.splits)

lemma hd_runs: "xs \<noteq> [] \<Longrightarrow> hd (hd (runs P xs)) = hd xs"
  by (cases xs) (auto split: list.splits)

lemma collapse_runs_Nil: "collapse_runs [] = []"
  by (simp add: collapse_runs_def)

lemma collapse_runs_word:
  "word_char c \<Longrightarrow> collapse_runs (c # cs) = c # collapse_runs cs"
  by (cases cs) (auto simp: collapse_runs_def split: list.splits)

lemma collapse_runs_other:
  "\<not> word_char c \<Longrightarrow>
   collapse_runs (c # cs) = CHR ''-'' # collapse_runs (dropWhile (\<lambda>x. \<not> word_char x) cs)"
proof (induction cs arbitrary: c)
  case Nil
  then show ?case by (simp add: collapse_runs_def)
next
  case (Cons d ds)
  show ?case
  proof (cases "word_char d")
    case True
    with Cons.prems hd_runs[of "d # ds" word_char] show ?thesis
      by (auto simp: collapse_runs_def split: list.splits)
  next
    case False
    from Cons.IH[OF False] have ih: "collapse_runs (d # ds)
        = CHR ''-'' # collapse_runs (dropWhile (\<lambda>x. \<not> word_char x) ds)" .
    from False Cons.prems hd_runs[of "d # ds" word_char]
    have "collapse_runs (c # d # ds) = collapse_runs (d # ds)"
      by (auto simp: collapse_runs_def split: list.splits)
    with ih False show ?thesis by simp
  qed
qed

lemma ReplaceAllString_collapse_runs: "ReplaceAllString s = collapse_runs s"
proof (induction s rule: ReplaceAllString.induct)
  case 1
  show ?case by (simp add: collapse_runs_Nil)
next
  case (2 c cs)
  then show ?case
    by (cases "word_char c") (simp_all add: collapse_runs_word collapse_runs_other)
qed

lemma ReplaceAllString_nonempty: "s \<noteq> [] \<Longrightarrow> ReplaceAllString s \<noteq> []"
  by (cases s) simp_all

lemma Clean_nonempty: "Clean path \<noteq> []"
  by (simp add: Clean_def Let_def)

lemma Clean_empty: "Clean [] = ''.''"
  by (simp add: Clean_def)

lemma Clean_no_separator:
  assumes ne: "name \<noteq> []" and ns: "CHR ''/'' \<notin> set name"
  shows "Clean name = name"
proof -
  have n0: "0 < length name" using ne by simp
  have h0: "name ! 0 \<noteq> CHR ''/''" using ns n0 nth_mem by metis
  have tw: "takeWhile (\<lambda>c. c \<noteq> CHR ''/'') name = name"
    using ns by (auto simp: takeWhile_eq_all_conv)
  have fin: "\<And>out dd. Clean_loop name False (length name) out dd = out"
    by (subst Clean_loop.simps) simp
  consider (dot) "name = ''.''" | (dotdot) "name = ''..''" | (other) "name \<noteq> ''.''" "name \<noteq> ''..''"
    by blast
  then have "Clean_loop name False 0 [] 0 = (if name = ''.'' then [] else name)"
  proof cases
    case dot
    then show ?thesis
      by (simp add: Clean_loop.simps)
  next
    case dotdot
    then show ?thesis
      by (simp add: Clean_loop.simps)
  next
    case other
    have a: "\<not> (name ! 0 = CHR ''.'' \<and> (0 + 1 = length name \<or> name ! (0 + 1) = CHR ''/''))"
    proof
      assume h: "name ! 0 = CHR ''.'' \<and> (0 + 1 = length name \<or> name ! (0 + 1) = CHR ''/'')"
      show False
      proof (cases "length name = 1")
        case True
        then obtain c where "name = [c]" by (cases name) auto
        with h other show False by simp
      next
        case False
        with n0 have "1 < length name" by linarith
        moreover from h False have "name ! 1 = CHR ''/''" by auto
        ultimately show False using ns nth_mem by metis
      qed
    qed
    have b: "\<not> (name ! 0 = CHR ''.'' \<and> name ! (0 + 1) = CHR ''.''
                \<and> (0 + 2 = length name \<or> name ! (0 + 2) = CHR ''/''))"
    proof
      assume h: "name ! 0 = CHR ''.'' \<and> name ! (0 + 1) = CHR ''.''
                \<and> (0 + 2 = length name \<or> name ! (0 + 2) = CHR ''/'')"
      from a h have "length name \<noteq> 1" by auto
      with n0 have l1: "1 < length name" by linarith
      show False
      proof (cases "length name = 2")
        case True
        then obtain c d where "name = [c, d]"
          by (cases name; cases "tl name") auto
        with h other show False by simp
      next
        case False
        with l1 have "2 < length name" by linarith
        moreover from h False have "name ! 2 = CHR ''/''" by (auto simp: numeral_2_eq_2)
        ultimately show False using ns nth_mem by metis
      qed
    qed
    from n0 h0 a b other show ?thesis
      by (subst Clean_loop.simps) (auto simp: Let_def tw fin)
  qed
  with ne h0 show ?thesis
    by (auto simp: Clean_def Let_def)
qed

lemma safeFilename_no_separator:
  "name \<noteq> [] \<Longrightarrow> CHR ''/'' \<notin> set name \<Longrightarrow> safeFilename name = ReplaceAllString name"
  by (simp add: safeFilename_def Clean_no_separator)

lemma safeFilename_empty: "safeFilename [] = ''-''"
  by (simp add: safeFilename_def Clean_empty word_char_def)

lemma safeFilename_nonempty: "safeFilename name \<noteq> []"
  by (simp add: safeFilename_def ReplaceAllString_nonempty Clean_nonempty)

text \<open>
  Claim C6, as amended. The file name that \<open>saveJSONToFile\<close> derives is the name, first
  cleaned as a path by \<open>filepath.Clean\<close>, with every maximal run of characters outside
  \<open>[A-Za-z0-9_]\<close> replaced by a single hyphen and the characters of the class kept, in
  order. For a name that is not empty and has no \<open>/\<close> the cleaning changes nothing and the
  file name is the name itself with its runs replaced: \<open>My Playlist #1!\<close> gives
  \<open>My-Playlist-1-\<close>, and the bytes of non-ASCII characters form runs like any other. The
  empty name is cleaned to \<open>.\<close> and gives \<open>-\<close>.
\<close>

theorem C6_filename_is_cleaned_then_collapsed:
  "safeFilename name = collapse_runs (Clean name)
   \<and> (name \<noteq> [] \<and> CHR ''/'' \<notin> set name \<longrightarrow> safeFilename name = collapse_runs name)
   \<and> safeFilename ''My Playlist #1!'' = ''My-Playlist-1-''
   \<and> safeFilename [CHR ''C'', CHR ''a'', CHR ''f'', CHR 0xC3, CHR 0xA9, CHR '' '',
                    CHR 0xE2, CHR 0x98, CHR 0x95, CHR ''_'', CHR ''1''] = ''Caf-_1''
   \<and> safeFilename [] = ''-''"
proof (intro conjI impI)
  show "safeFilename name = collapse_runs (Clean name)"
    by (simp add: safeFilename_def ReplaceAllString_collapse_runs)
  show "safeFilename name = collapse_runs name" if "name \<noteq> [] \<and> CHR ''/'' \<notin> set name"
    using that by (simp add: safeFilename_no_separator ReplaceAllString_collapse_runs)
  show "safeFilename ''My Playlist #1!'' = ''My-Playlist-1-''"
    by (subst safeFilename_no_separator) (simp_all add: word_char_def)
  show "safeFilename [CHR ''C'', CHR ''a'', CHR ''f'', CHR 0xC3, CHR 0xA9, CHR '' '',
                    CHR 0xE2, CHR 0x98, CHR 0x95, CHR ''_'', CHR ''1''] = ''Caf-_1''"
    by (subst safeFilename_no_separator) (simp_all add: word_char_def)
  show "safeFilename [] = ''-''" by (rule safeFilename_empty)
qed

theorem C6_witness:
  "''My Playlist #1!'' \<noteq> [] \<and> CHR ''/'' \<notin> set ''My Playlist #1!''
   \<and> safeFilename ''My Playlist #1!'' = collapse_runs ''My Playlist #1!''"
proof -
  have h: "''My Playlist #1!'' \<noteq> [] \<and> CHR ''/'' \<notin> set ''My Playlist #1!''" by simp
  from C6_filename_is_cleaned_then_collapsed[of "''My Playlist #1!''"] h
  show ?thesis by blast
qed

lemma Clean_Rock: "Clean ''Rock/'' = ''Rock''"
  by (simp add: Clean_def Clean_loop.simps Let_def)

text \<open>
  Claim C6 fails as stated, where the cleaning changes the name: the rule alone maps the
  empty name to the empty string and \<open>Rock/\<close> to \<open>Rock-\<close>; the code gives \<open>-\<close> and
  \<open>Rock\<close>.
\<close>

theorem C6_counterexample:
  "safeFilename [] = ''-'' \<and> collapse_runs [] = []
   \<and> safeFilename ''Rock/'' = ''Rock'' \<and> collapse_runs ''Rock/'' = ''Rock-''"
proof -
  have "safeFilename ''Rock/'' = ''Rock''"
    by (simp add: safeFilename_def Clean_Rock word_char_def)
  moreover have "collapse_runs ''Rock/'' = ''Rock-''"
    by (simp add: ReplaceAllString_collapse_runs[symmetric] word_char_def)
  ultimately show ?thesis
    by (simp add: safeFilename_empty collapse_runs_Nil)
qed

text \<open>
  Claim C10. The file name derived from any entity name is not empty. The empty name is
  cleaned to \<open>.\<close>, which is one run outside the class, so its file name is \<open>-\<close> and
  its tracks are written to \<open>backups/-.json\<close>.
\<close>

theorem C10_safe_filename_never_empty:
  "safeFilename name \<noteq> []
   \<and> Clean [] = ''.''
   \<and> safeFilename [] = ''-''
   \<and> saveJSONToFile [] data world0
       = (Inr (), world0\<lparr>dirs := [''backups''],
                          files := [''backups/-.json'' \<mapsto> ItemsJSON data]\<rparr>)"
  by (simp add: safeFilename_nonempty Clean_empty safeFilename_empty saveJSONToFile_def
        world0_def Let_def)

section \<open>The authorization flow\<close>

lemma serve_first_callback:
  "\<forall>r \<in> set pre. URL_Path r \<noteq> ''/callback'' \<Longrightarrow> URL_Path rq = ''/callback'' \<Longrightarrow>
   serve exchange state (pre @ rq # rest) w
     = Some (callback exchange state (URL_Query rq)
               (w\<lparr>replies := replies w @ replicate (length pre) ''404 page not found''\<rparr>))"
proof (induction pre arbitrary: w)
  case Nil
  then show ?case by simp
next
  case (Cons r pre)
  then show ?case by (simp add: replicate_app_Cons_same)
qed

lemma callback_state_mismatch:
  "query_Get q ''state'' \<noteq> state \<Longrightarrow>
   callback exchange state q w
     = (Exit 1, w\<lparr>logged := logged w @ [''Invalid state received: '' @ query_Get q ''state'']\<rparr>)"
  by (auto simp: callback_def Fatalf_def Let_def)

text \<open>
  Claim C7. When the first request for \<open>/callback\<close> that reaches the local server carries
  a \<open>state\<close> parameter different from the state value of the flow, the process ends
  with \<open>log.Fatalf\<close> (exit status 1): no code has been sent to the token endpoint and no
  file, the token cache included, has been written. Requests for other paths that come
  before it change nothing of this.
\<close>

theorem C7_state_mismatch_aborts_before_exchange:
  "(\<forall>r \<in> set pre. URL_Path r \<noteq> ''/callback'') \<and> URL_Path rq = ''/callback''
     \<and> query_Get (URL_Query rq) ''state'' \<noteq> oauthFlow_state \<longrightarrow>
   (\<exists>w'. oauthFlow conf exchange None (pre @ rq # rest) w = Some (Exit 1, w')
        \<and> exchanged w' = exchanged w
        \<and> files w' = files w
        \<and> logged w' = logged w @ [''Invalid state received: ''
                                     @ query_Get (URL_Query rq) ''state''])"
proof
  assume h: "(\<forall>r \<in> set pre. URL_Path r \<noteq> ''/callback'') \<and> URL_Path rq = ''/callback''
     \<and> query_Get (URL_Query rq) ''state'' \<noteq> oauthFlow_state"
  then have a: "\<forall>r \<in> set pre. URL_Path r \<noteq> ''/callback''"
    and b: "URL_Path rq = ''/callback''"
    and c: "query_Get (URL_Query rq) ''state'' \<noteq> oauthFlow_state" by simp_all
  show "\<exists>w'. oauthFlow conf exchange None (pre @ rq # rest) w = Some (Exit 1, w')
        \<and> exchanged w' = exchanged w
        \<and> files w' = files w
        \<and> logged w' = logged w @ [''Invalid state received: ''
                                     @ query_Get (URL_Query rq) ''state'']"
    by (simp add: oauthFlow_def Let_def serve_first_callback[OF a b]
          callback_state_mismatch[OF c] Printf_def)
qed

theorem C7_witness:
  "URL_Path (Request ''/favicon.ico'' []) \<noteq> ''/callback''
   \<and> URL_Path (Request ''/callback'' [(''code'', ''stolen''), (''state'', ''guess'')]) = ''/callback''
   \<and> query_Get (URL_Query (Request ''/callback'' [(''code'', ''stolen''), (''state'', ''guess'')]))
        ''state'' \<noteq> oauthFlow_state
   \<and> map_option fst (oauthFlow sample_conf granting None forged_callback world0) = Some (Exit 1)
   \<and> map_option (exchanged \<circ> snd) (oauthFlow sample_conf granting None forged_callback world0)
       = Some []
   \<and> map_option (\<lambda>r. files (snd r) ''token_cache.json'')
        (oauthFlow sample_conf granting None forged_callback world0) = Some None"
proof -
  have h: "(\<forall>r \<in> set [Request ''/favicon.ico'' []]. URL_Path r \<noteq> ''/callback'')
   \<and> URL_Path (Request ''/callback'' [(''code'', ''stolen''), (''state'', ''guess'')]) = ''/callback''
   \<and> query_Get (URL_Query (Request ''/callback'' [(''code'', ''stolen''), (''state'', ''guess'')]))
        ''state'' \<noteq> oauthFlow_state"
    by (simp add: query_Get_def oauthFlow_state_def)
  from C7_state_mismatch_aborts_before_exchange
         [of "[Request ''/favicon.ico'' []]"
             "Request ''/callback'' [(''code'', ''stolen''), (''state'', ''guess'')]"
             sample_conf granting "[]" world0] h
  obtain w' where "oauthFlow sample_conf granting None forged_callback world0 = Some (Exit 1, w')"
    "exchanged w' = exchanged world0" "files w' = files world0"
    unfolding forged_callback_def by auto
  with h show ?thesis by (simp add: world0_def)
qed

lemma scopes_escaped:
  "QueryEscape (Join scopes '' '') = ''playlist-read-private+user-library-read''"
  by code_simp

lemma redirect_escaped:
  "QueryEscape redirectURL = ''http%3A%2F%2Flocalhost%3A8080%2Fcallback''"
  by code_simp

lemma state_escaped: "QueryEscape oauthFlow_state = ''random-string-for-state-check''"
  by code_simp

lemma id_escaped: "QueryEscape ''4f2a'' = ''4f2a''"
  by code_simp

lemma callback_state_match_exchanges:
  "query_Get q ''state'' = state \<Longrightarrow>
   exchanged (snd (callback exchange state q w)) = exchanged w @ [query_Get q ''code'']"
  by (cases "exchange (query_Get q ''code'')")
     (auto simp: callback_def Exchange_def Fatalf_def saveToken_def Let_def
           split: option.splits)

text \<open>
  Claim C9 says that the state value in the authorization URL is generated for the run
  and differs between runs. The state of the flow is the string literal of line 123, the
  same in every run and in every world: the URL of every run carries it, next to the two
  scopes, and a callback that carries the literal passes the state check in every world,
  so that its code is sent to the token endpoint.
\<close>

theorem C9_state_is_a_fixed_string:
  "oauthFlow_state = ''random-string-for-state-check''
   \<and> AuthCodeURL sample_conf oauthFlow_state
       = ''https://accounts.spotify.com/authorize?client_id=4f2a''
         @ ''&redirect_uri=http%3A%2F%2Flocalhost%3A8080%2Fcallback''
         @ ''&response_type=code''
         @ ''&scope=playlist-read-private+user-library-read''
         @ ''&state=random-string-for-state-check''
   \<and> exchanged (snd (callback exchange oauthFlow_state
                         [(''code'', code), (''state'', ''random-string-for-state-check'')] w))
       = exchanged w @ [code]"
proof (intro conjI)
  show "oauthFlow_state = ''random-string-for-state-check''"
    by (simp add: oauthFlow_state_def)
  have q: "CHR ''?'' \<notin> set authURL" by code_simp
  have "AuthCodeURL sample_conf oauthFlow_state
       = authURL @ ''?'' @ ''client_id='' @ ''4f2a''
         @ ''&redirect_uri='' @ ''http%3A%2F%2Flocalhost%3A8080%2Fcallback''
         @ ''&response_type=code''
         @ ''&scope='' @ ''playlist-read-private+user-library-read''
         @ ''&state='' @ ''random-string-for-state-check''"
    unfolding AuthCodeURL_def
    by (simp add: sample_conf_def q scopes_escaped redirect_escaped state_escaped id_escaped
          redirectURL_def [THEN arg_cong, of "\<lambda>x. x = []"] scopes_def [THEN arg_cong, of "\<lambda>x. x = []"]
          oauthFlow_state_def [THEN arg_cong, of "\<lambda>x. x = []"]
          del: QueryEscape.simps Join.simps)
  then show "AuthCodeURL sample_conf oauthFlow_state
       = ''https://accounts.spotify.com/authorize?client_id=4f2a''
         @ ''&redirect_uri=http%3A%2F%2Flocalhost%3A8080%2Fcallback''
         @ ''&response_type=code''
         @ ''&scope=playlist-read-private+user-library-read''
         @ ''&state=random-string-for-state-check''"
    by (simp add: authURL_def)
  have "query_Get [(''code'', code), (''state'', ''random-string-for-state-check'')] ''state''
          = oauthFlow_state"
    by (simp add: query_Get_def oauthFlow_state_def)
  from callback_state_match_exchanges[OF this, of exchange w]
  show "exchanged (snd (callback exchange oauthFlow_state
                         [(''code'', code), (''state'', ''random-string-for-state-check'')] w))
       = exchanged w @ [code]"
    by (simp add: query_Get_def)
qed

section \<open>Orchestration\<close>

lemma main_loop_skips_returned_error:
  "fetchPlaylistTracks client p w = Some (Inl (Returned err), w1) \<Longrightarrow>
   main_loop client (p # ps) w
     = main_loop client ps
         (log_Printf (''Error fetching tracks for playlist '' @ Playlist.Name p
                        @ '': '' @ Error err) w1)"
  by simp

lemma main_loop_panics:
  "fetchPlaylistTracks client p w = Some (Inl NilDereference, w1) \<Longrightarrow>
   main_loop client (p # ps) w = Some (Inl Panicked, w1)"
  by simp

lemma lost_before_tracks_first:
  "lost_before_tracks s fetchPlaylists_url = (ok (playlists_json two_playlists), s)"
  by (simp add: lost_before_tracks_def)

lemma lost_before_tracks_Rain:
  "lost_before_tracks s (fetchPlaylistTracks_url Rain)
     = ((None, Some (Cause ''connection refused'')), s)"
  by (simp add: lost_before_tracks_def fetchPlaylists_url_eq fetchPlaylistTracks_url_eq Rain_def)

lemma remote_Rain:
  "remote s (fetchPlaylistTracks_url Rain) = ((Some \<lparr>Body = Inl (Cause ''unexpected EOF'')\<rparr>, None), s)"
  by (simp add: remote_def fetchPlaylists_url_eq fetchPlaylistTracks_url_eq Rain_def Road_def)

text \<open>
  Claim C8 says that the failure of one playlist's track fetch is logged, that the
  playlist is skipped and that the run goes on with the remaining playlists. \<open>main\<close>
  does so with every error that \<open>fetchPlaylistTracks\<close> returns: the body of the tracks of
  \<open>Rain\<close> breaks off, the error is logged and the loop goes on with the playlists left.
  On a transport error \<open>fetchPlaylistTracks\<close> returns nothing: it dereferences the nil
  response, and the panic ends the whole run. Here the remote side is lost when the tracks
  of \<open>Rain\<close> are asked for: nothing is logged, \<open>Rest\<close> is never asked for, the saved
  tracks neither, and no file is written.
\<close>

theorem C8_transport_error_on_tracks_ends_the_run:
  "map_option fst (fetchPlaylists lost_before_tracks world0) = Some (Inr [Rain, Rest])
   \<and> map_option fst (main_backup lost_before_tracks world0) = Some Panicked
   \<and> map_option (requests \<circ> snd) (main_backup lost_before_tracks world0)
       = Some [fetchPlaylists_url, fetchPlaylistTracks_url Rain]
   \<and> map_option (logged \<circ> snd) (main_backup lost_before_tracks world0) = Some []
   \<and> map_option (dom \<circ> files \<circ> snd) (main_backup lost_before_tracks world0) = Some {}
   \<and> main_loop remote (Rain # ps) world0
       = main_loop remote ps
           (world0\<lparr>requests := [fetchPlaylistTracks_url Rain],
                    logged := [''Error fetching tracks for playlist Rain: ''
                                 @ ''failed to read tracks response: unexpected EOF'']\<rparr>)"
proof -
  define w1 where "w1 = Printf (''Fetched '' @ itoa (length ([] @ PlaylistPage.Items
                 (fst (as_PlaylistPage (playlists_json two_playlists))))) @ '' playlists'' @ [CHR 10])
                 (world0\<lparr>requests := [fetchPlaylists_url]\<rparr>)"
  have g1: "Get lost_before_tracks fetchPlaylists_url world0
              = ((Some \<lparr>Body = Inr (playlists_json two_playlists)\<rparr>, None),
                 world0\<lparr>requests := [fetchPlaylists_url]\<rparr>)"
    by (simp add: Get_def lost_before_tracks_first ok_def world0_def)
  have b1: "Body \<lparr>Body = Inr (playlists_json two_playlists)\<rparr> = Inr (playlists_json two_playlists)"
    by simp
  have fp: "fetchPlaylists lost_before_tracks world0 = Some (Inr [Rain, Rest], w1)"
    using fetchPlaylists_loop_page[OF g1 b1 fetchPlaylists_url_nonempty, of "[]"]
    by (simp add: fetchPlaylists_def playlists_json_def two_playlists_def w1_def
          fetchPlaylists_loop_done)
  define w2 where "w2 = w1\<lparr>requests := requests w1 @ [fetchPlaylistTracks_url Rain]\<rparr>"
  have g2: "Get lost_before_tracks (fetchPlaylistTracks_url Rain) w1
              = ((None, Some (Cause ''connection refused'')), w2)"
    by (simp add: Get_def lost_before_tracks_Rain w2_def)
  have ft: "fetchPlaylistTracks lost_before_tracks Rain w1 = Some (Inl NilDereference, w2)"
    unfolding fetchPlaylistTracks_def
    by (rule fetchPlaylistTracks_loop_get_nil[OF g2 fetchPlaylistTracks_url_nonempty])
  have ml: "main_loop lost_before_tracks [Rain, Rest] w1 = Some (Inl Panicked, w2)"
    by (rule main_loop_panics[OF ft])
  have mb: "main_backup lost_before_tracks world0 = Some (Panicked, w2)"
    by (simp add: main_backup_def fp ml del: main_loop.simps)
  have r: "requests w2 = [fetchPlaylists_url, fetchPlaylistTracks_url Rain]"
    and l: "logged w2 = []" and f: "dom (files w2) = {}"
    by (simp_all add: w2_def w1_def Printf_def world0_def)
  have g3: "Get remote (fetchPlaylistTracks_url Rain) world0
              = ((Some \<lparr>Body = Inl (Cause ''unexpected EOF'')\<rparr>, None),
                 world0\<lparr>requests := [fetchPlaylistTracks_url Rain]\<rparr>)"
    by (simp add: Get_def remote_Rain world0_def)
  have b3: "Body \<lparr>Body = Inl (Cause ''unexpected EOF'')\<rparr> = Inl (Cause ''unexpected EOF'')"
    by simp
  have fr: "fetchPlaylistTracks remote Rain world0
              = Some (Inl (Returned (Wrap (Cause ''unexpected EOF'') ''failed to read tracks response'')),
                      world0\<lparr>requests := [fetchPlaylistTracks_url Rain]\<rparr>)"
    unfolding fetchPlaylistTracks_def
    by (rule fetchPlaylistTracks_loop_read_error[OF g3 b3 fetchPlaylistTracks_url_nonempty])
  have sk: "main_loop remote (Rain # ps) world0
       = main_loop remote ps
           (world0\<lparr>requests := [fetchPlaylistTracks_url Rain],
                    logged := [''Error fetching tracks for playlist Rain: ''
                                 @ ''failed to read tracks response: unexpected EOF'']\<rparr>)"
  proof -
    have n: "Playlist.Name Rain = ''Rain''" by (simp add: Rain_def)
    show ?thesis
      unfolding main_loop_skips_returned_error[OF fr]
      by (simp add: log_Printf_def n world0_def)
  qed
  from fp mb r l f sk show ?thesis by simp
qed

end
